theory Spec2Isabelle
  imports Complex_Main
begin

section \<open>JavaScript values used by the modelled code\<close>

text \<open>
  Numeric fields of the actor and item documents hold integers; they are modelled as
  \<^typ>\<open>int\<close>. A number that the code computes may also be \<^verbatim>\<open>NaN\<close> or infinite; such
  numbers are \<open>jsnum\<close>. An integer stands for the double of that value: the rounding of
  doubles beyond \<open>2\<^sup>5\<^sup>3\<close> is not part of the model, and \<open>-0\<close> is identified with \<open>0\<close>,
  to which it is equal and like which it prints.
\<close>

datatype jsnum = Fin int | PosInf | NegInf | NaN

datatype jsval = JString string | JNumber jsnum | JUndefined | JNull

datatype error = TypeError

text \<open>\<^verbatim>\<open>a + b\<close>, \<^verbatim>\<open>a - b\<close>, \<^verbatim>\<open>a > b\<close>, \<^verbatim>\<open>Math.min(a, b)\<close> and \<^verbatim>\<open>Math.max(a, b)\<close> on
  numbers. A \<^verbatim>\<open>NaN\<close> operand makes the result \<^verbatim>\<open>NaN\<close> (and a comparison false), and so
  does the sum of the two infinities or the difference of two equal ones.\<close>

fun jadd :: "jsnum \<Rightarrow> jsnum \<Rightarrow> jsnum" where
  "jadd NaN _ = NaN"
| "jadd _ NaN = NaN"
| "jadd (Fin a) (Fin b) = Fin (a + b)"
| "jadd PosInf NegInf = NaN"
| "jadd NegInf PosInf = NaN"
| "jadd PosInf _ = PosInf"
| "jadd _ PosInf = PosInf"
| "jadd NegInf _ = NegInf"
| "jadd _ NegInf = NegInf"









text \<open>
  The string of a number, as in a template literal \<^verbatim>\<open>${n}\<close>: the decimal numeral below
  \<open>10\<^sup>2\<^sup>1\<close>; from there on the exponent form, whose digits are the number's own without
  the trailing zeros (\<^verbatim>\<open>1e+21\<close>, \<^verbatim>\<open>1.5e+22\<close>); a minus sign for a negative number; and
  the words \<^verbatim>\<open>Infinity\<close> and \<^verbatim>\<open>NaN\<close>.
\<close>

fun nat_digits :: "nat \<Rightarrow> string" where
  "nat_digits n =
     (if n < 10 then [''0123456789'' ! n]
      else nat_digits (n div 10) @ [''0123456789'' ! (n mod 10)])"

declare nat_digits.simps [simp del]

definition exponent_form :: "nat \<Rightarrow> string" where
  "exponent_form n =
     (let ds = nat_digits n;
          significant = rev (dropWhile (\<lambda>c. c = CHR ''0'') (rev ds))
      in (case significant of
            [] \<Rightarrow> []
          | c # cs \<Rightarrow> c # (if cs = [] then [] else CHR ''.'' # cs))
         @ ''e+'' @ nat_digits (length ds - 1))"

definition nat_str :: "nat \<Rightarrow> string" where
  "nat_str n = (if n < 1000000000000000000000 then nat_digits n else exponent_form n)"

definition int_str :: "int \<Rightarrow> string" where
  "int_str i = (if i < 0 then CHR ''-'' # nat_str (nat (- i)) else nat_str (nat i))"

fun jsnum_str :: "jsnum \<Rightarrow> string" where
  "jsnum_str (Fin i) = int_str i"
| "jsnum_str PosInf = ''Infinity''"
| "jsnum_str NegInf = ''-Infinity''"
| "jsnum_str NaN = ''NaN''"

text \<open>
  \<^verbatim>\<open>parseInt(s)\<close> with no radix: leading white space is skipped, then an optional sign,
  then an optional \<^verbatim>\<open>0x\<close>/\<^verbatim>\<open>0X\<close> prefix selecting radix 16, then the longest run of
  digits of the radix; no digit at all gives \<^verbatim>\<open>NaN\<close>. Characters are bytes here, so
  only the ASCII white space is recognised.
\<close>

definition is_white_space :: "char \<Rightarrow> bool" where
  "is_white_space c \<longleftrightarrow> c \<in> set [CHR '' '', CHR 0x09, CHR 0x0A, CHR 0x0B, CHR 0x0C, CHR 0x0D]"

definition digit_value :: "char \<Rightarrow> nat option" where
  "digit_value c =
     (let n = of_char c :: nat in
      if 48 \<le> n \<and> n \<le> 57 then Some (n - 48)
      else if 97 \<le> n \<and> n \<le> 122 then Some (n - 87)
      else if 65 \<le> n \<and> n \<le> 90 then Some (n - 55)
      else None)"

definition is_digit :: "nat \<Rightarrow> char \<Rightarrow> bool" where
  "is_digit radix c = (case digit_value c of None \<Rightarrow> False | Some d \<Rightarrow> d < radix)"

definition digits_value :: "nat \<Rightarrow> string \<Rightarrow> nat" where
  "digits_value radix ds = foldl (\<lambda>acc c. acc * radix + the (digit_value c)) 0 ds"

definition strip_sign :: "string \<Rightarrow> bool \<times> string" where
  "strip_sign s =
     (case s of
        c # r \<Rightarrow> if c = CHR ''-'' then (True, r)
                 else if c = CHR ''+'' then (False, r)
                 else (False, s)
      | [] \<Rightarrow> (False, s))"

definition strip_radix :: "string \<Rightarrow> nat \<times> string" where
  "strip_radix s =
     (case s of
        c # d # r \<Rightarrow> if c = CHR ''0'' \<and> (d = CHR ''x'' \<or> d = CHR ''X'')
                     then (16, r) else (10, s)
      | _ \<Rightarrow> (10, s))"

definition parseInt_string :: "string \<Rightarrow> jsnum" where
  "parseInt_string s =
     (let (negative, s2) = strip_sign (dropWhile is_white_space s);
          (radix, s3) = strip_radix s2;
          ds = takeWhile (is_digit radix) s3
      in if ds = [] then NaN
         else Fin ((if negative then - 1 else 1) * int (digits_value radix ds)))"

text \<open>\<^verbatim>\<open>parseInt(v)\<close> first converts its argument to a string: a number to its decimal
  numeral or \<^verbatim>\<open>NaN\<close>, \<^verbatim>\<open>undefined\<close> and \<^verbatim>\<open>null\<close> to their names.\<close>

fun ToString :: "jsval \<Rightarrow> string" where
  "ToString (JString s) = s"
| "ToString (JNumber n) = jsnum_str n"
| "ToString JUndefined = ''undefined''"
| "ToString JNull = ''null''"

definition parseInt :: "jsval \<Rightarrow> jsnum" where
  "parseInt v = parseInt_string (ToString v)"

section \<open>Actor data preparation\<close>

text \<open>
  The actor's system data. \<^verbatim>\<open>abilities\<close>, \<^verbatim>\<open>saves\<close>, \<^verbatim>\<open>martial\<close> and \<^verbatim>\<open>skills\<close> are
  objects iterated with \<^verbatim>\<open>Object.values\<close>; they are association lists in key order.
  Perception has the fields of a save and shares its record.
\<close>

record ability =
  abl_value :: int
  abl_mod :: int

record save =
  sav_rank :: int
  sav_ability :: string
  sav_item :: int
  sav_value :: jsnum
  sav_breakdown :: string

record martial =
  mar_rank :: int
  mar_value :: jsnum
  mar_breakdown :: string

record spelldc =
  sdc_rank :: int
  sdc_item :: int
  sdc_value :: jsnum
  sdc_dc :: jsnum
  sdc_breakdown :: string

record skill =
  skl_rank :: int
  skl_ability :: string
  skl_item :: int
  skl_armor :: bool
  skl_mod :: "int option"
  skl_value :: jsnum
  skl_breakdown :: string

record details =
  level_value :: jsval
  xp_value :: int
  xp_max :: int
  xp_pct :: rat

record hit_points =
  hp_value :: int
  hp_max :: int
  hp_temp :: jsval

record attributes =
  perception :: save
  spelldc :: spelldc
  spellcasting_value :: "string option"
  ac_check :: "int option"
  hp :: hit_points

text \<open>A trait list is either already an array or still in the older storage format.\<close>

datatype trait_value = TArray "string list" | TLegacy jsval

record traits =
  dr :: trait_value
  di :: trait_value
  dv :: trait_value
  ci :: trait_value
  languages :: trait_value

record actor_data =
  abilities :: "(string \<times> ability) list"
  saves :: "(string \<times> save) list"
  martial :: "(string \<times> martial) list"
  skills :: "(string \<times> skill) list"
  attributes :: attributes
  details :: details
  traits :: traits

record actor =
  actor_type :: string
  actor_data :: actor_data

text \<open>The configuration tables \<^verbatim>\<open>CONFIG.damageTypes\<close>, \<^verbatim>\<open>CONFIG.conditionTypes\<close> and
  \<^verbatim>\<open>CONFIG.languages\<close>, and the converter \<^verbatim>\<open>TraitSelector5e._backCompat\<close>, live in
  other modules; they are parameters of the model. The converter's result is an array, so
  a migrated trait list is not migrated again.\<close>

record config =
  damageTypes :: "(string \<times> string) list"
  conditionTypes :: "(string \<times> string) list"
  config_languages :: "(string \<times> string) list"

type_synonym backCompat = "jsval \<Rightarrow> (string \<times> string) list \<Rightarrow> string list"

text \<open>A loop whose body may throw: the first error ends it.\<close>

fun mapE :: "('a \<Rightarrow> 'e + 'b) \<Rightarrow> 'a list \<Rightarrow> 'e + 'b list" where
  "mapE f [] = Inr []"
| "mapE f (x # xs) =
     (case f x of
        Inl e \<Rightarrow> Inl e
      | Inr y \<Rightarrow> (case mapE f xs of Inl e \<Rightarrow> Inl e | Inr ys \<Rightarrow> Inr (y # ys)))"

definition on_value :: "('v \<Rightarrow> 'e + 'v) \<Rightarrow> 'k \<times> 'v \<Rightarrow> 'e + 'k \<times> 'v" where
  "on_value f kv = (case f (snd kv) of Inl e \<Rightarrow> Inl e | Inr v' \<Rightarrow> Inr (fst kv, v'))"

definition for_values :: "('v \<Rightarrow> 'e + 'v) \<Rightarrow> ('k \<times> 'v) list \<Rightarrow> 'e + ('k \<times> 'v) list" where
  "for_values f kvs = mapE (on_value f) kvs"

text \<open>
  \<^verbatim>\<open>data.abilities[key].mod\<close>. The abilities are a plain object: a key it does not own
  is looked up on \<^verbatim>\<open>Object.prototype\<close>. For one of that object's names the lookup finds a
  function or object without a \<^verbatim>\<open>mod\<close>, and the modifier read is \<^verbatim>\<open>undefined\<close>; for any
  other missing key the lookup is \<^verbatim>\<open>undefined\<close> and reading \<^verbatim>\<open>.mod\<close> of it throws. A
  modifier is \<open>Some\<close> integer or \<open>None\<close> for \<^verbatim>\<open>undefined\<close>.
\<close>

definition Object_prototype_keys :: "string list" where
  "Object_prototype_keys =
     [''constructor'', ''__defineGetter__'', ''__defineSetter__'', ''hasOwnProperty'',
      ''__lookupGetter__'', ''__lookupSetter__'', ''isPrototypeOf'', ''propertyIsEnumerable'',
      ''toString'', ''valueOf'', ''__proto__'', ''toLocaleString'']"

definition ability_mod :: "(string \<times> ability) list \<Rightarrow> string \<Rightarrow> error + int option" where
  "ability_mod abls key =
     (case map_of abls key of
        Some a \<Rightarrow> Inr (Some (abl_mod a))
      | None \<Rightarrow> if key \<in> set Object_prototype_keys then Inr None else Inl TypeError)"

text \<open>A modifier as an operand of \<^verbatim>\<open>+\<close> and inside a template literal.\<close>

fun mod_number :: "int option \<Rightarrow> jsnum" where
  "mod_number (Some m) = Fin m"
| "mod_number None = NaN"

fun mod_str :: "int option \<Rightarrow> string" where
  "mod_str (Some m) = int_str m"
| "mod_str None = ''undefined''"

text \<open>\<^verbatim>\<open>rank ? (rank * 2) + data.details.level.value : 0\<close>, written out five times in the
  source.\<close>

definition proficiency :: "int \<Rightarrow> jsnum \<Rightarrow> jsnum" where
  "proficiency rank level = (if rank \<noteq> 0 then jadd (Fin (rank * 2)) level else Fin 0)"

definition prepare_save :: "(string \<times> ability) list \<Rightarrow> jsnum \<Rightarrow> save \<Rightarrow> error + save" where
  "prepare_save abls level s =
     (case ability_mod abls (sav_ability s) of
        Inl e \<Rightarrow> Inl e
      | Inr m \<Rightarrow>
          let p = proficiency (sav_rank s) level in
          Inr (s\<lparr>sav_value := jadd (jadd (mod_number m) p) (Fin (sav_item s)),
                 sav_breakdown := sav_ability s @ '' modifier('' @ mod_str m
                    @ '') + proficiency('' @ jsnum_str p
                    @ '') + item bonus('' @ int_str (sav_item s) @ '')''\<rparr>))"

definition prepare_martial :: "jsnum \<Rightarrow> martial \<Rightarrow> martial" where
  "prepare_martial level skl =
     (let p = proficiency (mar_rank skl) level in
      skl\<lparr>mar_value := p, mar_breakdown := ''proficiency('' @ jsnum_str p @ '')''\<rparr>)"

definition prepare_spelldc ::
  "(string \<times> ability) list \<Rightarrow> jsnum \<Rightarrow> string option \<Rightarrow> spelldc \<Rightarrow> error + spelldc" where
  "prepare_spelldc abls level spellcasting sd =
     (let spellProficiency = proficiency (sdc_rank sd) level;
          spellAbl = (case spellcasting of
                        None \<Rightarrow> ''int''
                      | Some v \<Rightarrow> if v = [] then ''int'' else v)
      in case ability_mod abls spellAbl of
           Inl e \<Rightarrow> Inl e
         | Inr m \<Rightarrow>
             let v = jadd (jadd (mod_number m) spellProficiency) (Fin (sdc_item sd)) in
             Inr (sd\<lparr>sdc_value := v,
                     sdc_dc := jadd v (Fin 10),
                     sdc_breakdown := ''10 + '' @ spellAbl @ '' modifier('' @ mod_str m
                        @ '') + proficiency('' @ jsnum_str spellProficiency
                        @ '') + item bonus('' @ int_str (sdc_item sd) @ '')''\<rparr>))"

definition prepare_skill ::
  "(string \<times> ability) list \<Rightarrow> jsnum \<Rightarrow> int option \<Rightarrow> skill \<Rightarrow> error + skill" where
  "prepare_skill abls level check skl =
     (let p = proficiency (skl_rank skl) level in
      case ability_mod abls (skl_ability skl) of
        Inl e \<Rightarrow> Inl e
      | Inr m \<Rightarrow>
          if skl_armor skl then
            let armorCheckPenalty = (case check of None \<Rightarrow> 0 | Some c \<Rightarrow> c) in
            Inr (skl\<lparr>skl_mod := m,
                      skl_value := jadd (jadd (jadd (mod_number m) p) (Fin (skl_item skl)))
                                     (Fin armorCheckPenalty),
                      skl_breakdown := skl_ability skl @ '' modifier('' @ mod_str m
                         @ '') + proficiency('' @ jsnum_str p
                         @ '') + item bonus('' @ int_str (skl_item skl)
                         @ '') + armor check penalty('' @ int_str armorCheckPenalty @ '')''\<rparr>)
          else
            Inr (skl\<lparr>skl_mod := m,
                      skl_value := jadd (jadd (mod_number m) p) (Fin (skl_item skl)),
                      skl_breakdown := skl_ability skl @ '' modifier('' @ mod_str m
                         @ '') + proficiency('' @ jsnum_str p
                         @ '') + item bonus('' @ int_str (skl_item skl) @ '')''\<rparr>))"

text \<open>\<^verbatim>\<open>Math.round(x)\<close> is \<open>\<lfloor>x + 1/2\<rfloor>\<close>.\<close>

definition Math_round :: "rat \<Rightarrow> int" where
  "Math_round x = \<lfloor>x + 1 / 2\<rfloor>"

definition prepareCharacterData :: "actor_data \<Rightarrow> error + actor_data" where
  "prepareCharacterData d =
     (let level = parseInt (level_value (details d));
          det = (details d)\<lparr>level_value := JNumber level,
                            xp_max := 1000,
                            xp_pct := min (of_int (Math_round (of_int (xp_value (details d)) * 100 / 1000)))
                                          (995 / 10)\<rparr>;
          att = attributes d
      in case for_values (prepare_save (abilities d) level) (saves d) of
           Inl e \<Rightarrow> Inl e
         | Inr saves' \<Rightarrow>
       (let martial' = map (\<lambda>(k, skl). (k, prepare_martial level skl)) (martial d) in
        case prepare_save (abilities d) level (perception att) of
           Inl e \<Rightarrow> Inl e
         | Inr perception' \<Rightarrow>
       (case prepare_spelldc (abilities d) level (spellcasting_value att) (spelldc att) of
           Inl e \<Rightarrow> Inl e
         | Inr spelldc' \<Rightarrow>
       (case for_values (prepare_skill (abilities d) level (ac_check att)) (skills d) of
           Inl e \<Rightarrow> Inl e
         | Inr skills' \<Rightarrow>
       Inr (d\<lparr>saves := saves', martial := martial', skills := skills',
               attributes := att\<lparr>perception := perception', spelldc := spelldc'\<rparr>,
               details := det\<rparr>)))))"

definition prepareNPCData :: "actor_data \<Rightarrow> actor_data" where
  "prepareNPCData d = d"

definition migrate_trait :: "backCompat \<Rightarrow> (string \<times> string) list \<Rightarrow> trait_value \<Rightarrow> trait_value" where
  "migrate_trait bc choices v =
     (case v of TArray xs \<Rightarrow> TArray xs | TLegacy old \<Rightarrow> TArray (bc old choices))"

definition migrate_traits :: "backCompat \<Rightarrow> config \<Rightarrow> traits \<Rightarrow> traits" where
  "migrate_traits bc cfg t =
     t\<lparr>dr := migrate_trait bc (damageTypes cfg) (dr t),
       di := migrate_trait bc (damageTypes cfg) (di t),
       dv := migrate_trait bc (damageTypes cfg) (dv t),
       ci := migrate_trait bc (conditionTypes cfg) (ci t),
       languages := migrate_trait bc (config_languages cfg) (languages t)\<rparr>"

definition prepare_abilities :: "(string \<times> ability) list \<Rightarrow> (string \<times> ability) list" where
  "prepare_abilities abls = map (\<lambda>(k, abl). (k, abl\<lparr>abl_mod := (abl_value abl - 10) div 2\<rparr>)) abls"

text \<open>\<^verbatim>\<open>prepareData\<close>. The base class's \<^verbatim>\<open>super.prepareData\<close> belongs to the host
  application; it is the parameter \<open>super_prepareData\<close>.\<close>

definition prepareData ::
  "(actor \<Rightarrow> actor) \<Rightarrow> backCompat \<Rightarrow> config \<Rightarrow> actor \<Rightarrow> error + actor" where
  "prepareData super_prepareData bc cfg actorData0 =
     (let actorData = super_prepareData actorData0;
          data = actor_data actorData;
          data1 = data\<lparr>abilities := prepare_abilities (abilities data)\<rparr>
      in case (if actor_type actorData = ''character'' then prepareCharacterData data1
               else if actor_type actorData = ''npc'' then Inr (prepareNPCData data1)
               else Inr data1) of
           Inl e \<Rightarrow> Inl e
         | Inr data2 \<Rightarrow>
             Inr (actorData\<lparr>actor_data := data2\<lparr>traits := migrate_traits bc cfg (traits data2)\<rparr>\<rparr>))"


section \<open>Applying damage to the controlled tokens\<close>





section \<open>Items: roll options and the pre-update hook\<close>

record ItemPF2e =
  item_id :: string
  item_name :: string
  item_slug :: "string option"
  item_type :: string
  system_traits :: "string list option"
  system_level :: "int option"
  isFeature :: bool
  item_consumableType :: string

text \<open>\<^verbatim>\<open>isOfType(...types)\<close>; the set \<^verbatim>\<open>PHYSICAL_ITEM_TYPES\<close> is imported from another
  module and is a parameter.\<close>

definition isOfType :: "string set \<Rightarrow> string \<Rightarrow> string list \<Rightarrow> bool" where
  "isOfType PHYSICAL_ITEM_TYPES this_type types =
     list_ex (\<lambda>t. if t = ''physical'' then this_type \<in> PHYSICAL_ITEM_TYPES else this_type = t) types"

text \<open>\<^verbatim>\<open>getRollOptions(prefix)\<close>; \<^verbatim>\<open>sluggify\<close> is imported from another module and is
  a parameter.\<close>

definition getRollOptions ::
  "(string \<Rightarrow> string) \<Rightarrow> string set \<Rightarrow> ItemPF2e \<Rightarrow> string \<Rightarrow> string list" where
  "getRollOptions sluggify PHYSICAL_ITEM_TYPES this prefix =
     (let slug = (case item_slug this of None \<Rightarrow> sluggify (item_name this) | Some s \<Rightarrow> s);
          traits = (case system_traits this of None \<Rightarrow> [] | Some ts \<Rightarrow> ts);
          traitOptions = map (\<lambda>t. ''trait:'' @ t) traits;
          delimitedPrefix = (if prefix \<noteq> [] then prefix @ '':'' else []);
          options = [delimitedPrefix @ ''id:'' @ item_id this, delimitedPrefix @ slug]
                    @ map (\<lambda>t. delimitedPrefix @ t) traitOptions;
          options1 = (case system_level this of
                        None \<Rightarrow> options
                      | Some l \<Rightarrow> options @ [delimitedPrefix @ ''level:'' @ int_str l]);
          options2 = (if prefix \<in> set [''item'', '''']
                      then (let itemType =
                                  (if isOfType PHYSICAL_ITEM_TYPES (item_type this) [''feat'']
                                      \<and> isFeature this
                                   then ''feature'' else item_type this)
                            in (delimitedPrefix @ ''type:'' @ itemType) # options1)
                      else options1)
      in if isOfType PHYSICAL_ITEM_TYPES (item_type this) [''consumable'']
         then options2 @ [delimitedPrefix @ ''type:'' @ item_consumableType this]
         else options2)"

text \<open>The default argument: \<^verbatim>\<open>prefix = this.type\<close>.\<close>

definition getRollOptions_default ::
  "(string \<Rightarrow> string) \<Rightarrow> string set \<Rightarrow> ItemPF2e \<Rightarrow> string list" where
  "getRollOptions_default sluggify PHYSICAL_ITEM_TYPES this =
     getRollOptions sluggify PHYSICAL_ITEM_TYPES this (item_type this)"

text \<open>The change set handed to \<^verbatim>\<open>_preUpdate\<close>: a partial object, each level of which
  may be absent or \<^verbatim>\<open>null\<close>. Whatever else the change set carries is \<open>'r\<close>.\<close>

datatype 'a field = Undefined | Null | Value 'a

record description_change =
  description_value :: "string field"

record 'r system_change =
  system_description :: "description_change field"
  system_other :: 'r

record 'r item_change =
  change_system :: "'r system_change field"
  change_other :: 'r

text \<open>The optional chain \<^verbatim>\<open>changed.system?.description?.value\<close>, and the test
  \<^verbatim>\<open>changed.system?.description?.value === null\<close>.\<close>

definition description_value_of :: "'r item_change \<Rightarrow> string field" where
  "description_value_of changed =
     (case change_system changed of
        Value s \<Rightarrow> (case system_description s of
                      Value d \<Rightarrow> description_value d
                    | _ \<Rightarrow> Undefined)
      | _ \<Rightarrow> Undefined)"

definition description_is_null :: "'r item_change \<Rightarrow> bool" where
  "description_is_null changed \<longleftrightarrow> description_value_of changed = Null"

text \<open>\<^verbatim>\<open>changed.system.description.value = v\<close>, on a change set that has both levels.\<close>

definition set_description_value :: "string field \<Rightarrow> 'r item_change \<Rightarrow> 'r item_change" where
  "set_description_value v changed =
     (case change_system changed of
        Value s \<Rightarrow> (case system_description s of
                      Value d \<Rightarrow> changed\<lparr>change_system :=
                                   Value (s\<lparr>system_description := Value (d\<lparr>description_value := v\<rparr>)\<rparr>)\<rparr>
                    | _ \<Rightarrow> changed)
      | _ \<Rightarrow> changed)"

text \<open>
  What the hook reads from its surroundings: whether the item is an ancestry, background,
  class, feat or heritage of a character; the maximum hit points of the character as it is
  and as a reset clone would have them after the change; the character's hit points; the
  rule elements' \<^verbatim>\<open>preUpdate\<close> callbacks, each of which may rewrite the change set; and the
  host's own \<^verbatim>\<open>super._preUpdate\<close>.
\<close>

record ('r, 'res) hook_env =
  adjusts_hp :: bool
  clone_hp_max :: "'r item_change \<Rightarrow> int"
  actor_hp_max :: int
  actor_hp_value :: int
  rules_preUpdate :: "('r item_change \<Rightarrow> 'r item_change) list"
  super_preUpdate :: "'r item_change \<Rightarrow> 'res"

record ('r, 'res) hook_result =
  changed_out :: "'r item_change"
  hp_updates :: "int list"
  super_result :: 'res

definition preUpdate :: "('r, 'res) hook_env \<Rightarrow> 'r item_change \<Rightarrow> ('r, 'res) hook_result" where
  "preUpdate env changed0 =
     (let changed = (if description_is_null changed0
                     then set_description_value (Value []) changed0 else changed0);
          updates = (if adjusts_hp env
                     then (let hpMaxDifference = clone_hp_max env changed - actor_hp_max env
                           in if hpMaxDifference \<noteq> 0
                              then [actor_hp_value env + hpMaxDifference] else [])
                     else []);
          changed' = fold (\<lambda>rule c. rule c) (rules_preUpdate env) changed
      in \<lparr>changed_out = changed', hp_updates = updates,
          super_result = super_preUpdate env changed'\<rparr>)"

section \<open>Crafting entries\<close>

record PhysicalItem =
  uuid :: string
  item_traits :: "string set"
  physical_type :: string
  consumableType :: string

text \<open>A crafting formula with the optional fields of a prepared one. The accessors
  \<^verbatim>\<open>uuid\<close> and \<^verbatim>\<open>level\<close> belong to the formula class of another module; they are
  fields here. Formulas are values: a formula object that sits in the array twice is two
  equal entries, and nothing proved below depends on the sharing.\<close>

record PreparedFormula =
  formula_uuid :: string
  formula_level :: int
  formula_item :: PhysicalItem
  quantity :: "int option"
  expended :: "bool option"
  isSignatureItem :: "bool option"

record ActorPreparedFormula =
  itemUUID :: string
  actor_quantity :: "int option"
  actor_expended :: "bool option"
  actor_isSignatureItem :: "bool option"

record CraftingEntry =
  preparedFormulas :: "PreparedFormula list"
  selector :: string
  isAlchemical :: bool
  requiredTraits :: "string list list"
  maxSlots :: int
  fieldDiscovery :: "string option"
  batchSize :: "int option"
  fieldDiscoveryBatchSize :: "int option"
  maxItemLevel :: int
  maxFieldDiscoveryItemLevel :: "int option"
  parentActor_level :: int

text \<open>The warnings shown through \<^verbatim>\<open>ui.notifications.warn\<close>, by localisation key.\<close>

datatype warning = CharacterLevel | MaxItemLevel | ItemMissingTraits "string list list"

text \<open>The entry together with what its methods do to the outside: the warnings shown
  and the updates sent to the parent actor, oldest first.\<close>

record crafting_state =
  entry :: CraftingEntry
  notifications :: "warning list"
  actor_updates :: "(string \<times> ActorPreparedFormula list) list"

text \<open>\<^verbatim>\<open>x || d\<close> on an optional number: \<^verbatim>\<open>undefined\<close> and \<^verbatim>\<open>0\<close> give \<open>d\<close>.\<close>

definition or_default :: "int option \<Rightarrow> int \<Rightarrow> int" where
  "or_default x d = (case x of None \<Rightarrow> d | Some v \<Rightarrow> if v = 0 then d else v)"

definition truthy :: "bool option \<Rightarrow> bool" where
  "truthy b = (case b of None \<Rightarrow> False | Some v \<Rightarrow> v)"

definition formulaBatchSize :: "CraftingEntry \<Rightarrow> PreparedFormula \<Rightarrow> int" where
  "formulaBatchSize this formula =
     (let fieldDiscoveryBatchSize' = or_default (fieldDiscoveryBatchSize this) 3;
          batchSize' = or_default (batchSize this) 2;
          options = (if physical_type (formula_item formula) = ''consumable''
                     then insert (consumableType (formula_item formula))
                            (item_traits (formula_item formula))
                     else item_traits (formula_item formula))
      in if (case maxFieldDiscoveryItemLevel this of
               None \<Rightarrow> True | Some m \<Rightarrow> m \<ge> formula_level formula)
            \<and> ((case fieldDiscovery this of None \<Rightarrow> False | Some fd \<Rightarrow> fd \<in> options)
               \<or> truthy (isSignatureItem formula))
         then fieldDiscoveryBatchSize' else batchSize')"

definition reagentCost :: "CraftingEntry \<Rightarrow> int" where
  "reagentCost this =
     (if \<not> isAlchemical this then 0
      else foldl (\<lambda>sum formula.
                    sum + \<lceil>(of_int (or_default (quantity formula) 1) :: rat)
                            / of_int (formulaBatchSize this formula)\<rceil>)
             0 (preparedFormulas this))"

definition checkEntryRequirements ::
  "CraftingEntry \<Rightarrow> PreparedFormula \<Rightarrow> bool \<Rightarrow> bool \<times> warning list" where
  "checkEntryRequirements this formula warn =
     (if maxSlots this \<noteq> 0 \<and> int (length (preparedFormulas this)) \<ge> maxSlots this
      then (False, [])
      else if parentActor_level this < formula_level formula
      then (False, if warn then [CharacterLevel] else [])
      else if formula_level formula > maxItemLevel this
      then (False, if warn then [MaxItemLevel] else [])
      else if \<not> list_ex (\<lambda>traits. list_all (\<lambda>t. t \<in> item_traits (formula_item formula)) traits)
                   (requiredTraits this)
      then (False, if warn then [ItemMissingTraits (requiredTraits this)] else [])
      else (True, []))"

definition updateActorEntryFormulas :: "crafting_state \<Rightarrow> crafting_state" where
  "updateActorEntryFormulas st =
     (let actorPreparedFormulas =
            map (\<lambda>d. \<lparr>itemUUID = uuid (formula_item d),
                      actor_quantity = quantity d,
                      actor_expended = expended d,
                      actor_isSignatureItem = isSignatureItem d\<rparr>)
              (preparedFormulas (entry st))
      in st\<lparr>actor_updates := actor_updates st @
             [(''system.crafting.entries.'' @ selector (entry st) @ ''.actorPreparedFormulas'',
               actorPreparedFormulas)]\<rparr>)"

definition findIndex :: "('a \<Rightarrow> bool) \<Rightarrow> 'a list \<Rightarrow> nat" where
  "findIndex P xs = length (takeWhile (\<lambda>x. \<not> P x) xs)"

definition set_preparedFormulas :: "PreparedFormula list \<Rightarrow> crafting_state \<Rightarrow> crafting_state" where
  "set_preparedFormulas fs st = st\<lparr>entry := (entry st)\<lparr>preparedFormulas := fs\<rparr>\<rparr>"

text \<open>\<^verbatim>\<open>prepareFormula\<close>: the result of \<^verbatim>\<open>checkEntryRequirements\<close> is not looked at.\<close>

definition prepareFormula :: "PreparedFormula \<Rightarrow> crafting_state \<Rightarrow> crafting_state" where
  "prepareFormula formula st =
     (let this = entry st;
          (ok, warnings) = checkEntryRequirements this formula True;
          st1 = st\<lparr>notifications := notifications st @ warnings\<rparr>;
          fs = preparedFormulas this;
          fs' = (if isAlchemical this \<and> list_ex (\<lambda>f. formula_uuid f = formula_uuid formula) fs
                 then (let index = findIndex (\<lambda>f. formula_uuid f = formula_uuid formula) fs;
                           quantity' = or_default (quantity (fs ! index)) 1
                       in fs[index := (fs ! index)\<lparr>quantity := Some (quantity' + 1)\<rparr>])
                 else fs @ [if isAlchemical this then formula\<lparr>quantity := Some 1\<rparr> else formula])
      in updateActorEntryFormulas (set_preparedFormulas fs' st1))"

text \<open>\<^verbatim>\<open>this.preparedFormulas[index]\<close>: \<^verbatim>\<open>undefined\<close> outside the array.\<close>

definition at_index :: "'a list \<Rightarrow> int \<Rightarrow> 'a option" where
  "at_index xs i = (if 0 \<le> i \<and> i < int (length xs) then Some (xs ! nat i) else None)"

text \<open>The guard shared by the six methods below:
  \<^verbatim>\<open>if (!prepData || prepData.item.uuid !== itemUUID) return;\<close>\<close>

definition prepData_at :: "crafting_state \<Rightarrow> int \<Rightarrow> string \<Rightarrow> PreparedFormula option" where
  "prepData_at st index itemUUID' =
     (case at_index (preparedFormulas (entry st)) index of
        None \<Rightarrow> None
      | Some prepData \<Rightarrow> if uuid (formula_item prepData) \<noteq> itemUUID' then None else Some prepData)"

definition unprepareFormula :: "int \<Rightarrow> string \<Rightarrow> crafting_state \<Rightarrow> crafting_state" where
  "unprepareFormula index itemUUID' st =
     (case prepData_at st index itemUUID' of
        None \<Rightarrow> st
      | Some prepData \<Rightarrow>
          let fs = preparedFormulas (entry st) in
          updateActorEntryFormulas
            (set_preparedFormulas (take (nat index) fs @ drop (Suc (nat index)) fs) st))"

definition increaseFormulaQuantity :: "int \<Rightarrow> string \<Rightarrow> crafting_state \<Rightarrow> crafting_state" where
  "increaseFormulaQuantity index itemUUID' st =
     (case prepData_at st index itemUUID' of
        None \<Rightarrow> st
      | Some prepData \<Rightarrow>
          let q = (case quantity prepData of
                     None \<Rightarrow> 2 | Some q0 \<Rightarrow> if q0 \<noteq> 0 then q0 + 1 else 2);
              fs = preparedFormulas (entry st)
          in updateActorEntryFormulas
               (set_preparedFormulas (fs[nat index := prepData\<lparr>quantity := Some q\<rparr>]) st))"

definition decreaseFormulaQuantity :: "int \<Rightarrow> string \<Rightarrow> crafting_state \<Rightarrow> crafting_state" where
  "decreaseFormulaQuantity index itemUUID' st =
     (case prepData_at st index itemUUID' of
        None \<Rightarrow> st
      | Some prepData \<Rightarrow>
          let q = (case quantity prepData of
                     None \<Rightarrow> 0 | Some q0 \<Rightarrow> if q0 \<noteq> 0 then q0 - 1 else 0);
              fs = preparedFormulas (entry st);
              st1 = set_preparedFormulas (fs[nat index := prepData\<lparr>quantity := Some q\<rparr>]) st
          in if q \<le> 0 then unprepareFormula index itemUUID' st1
             else updateActorEntryFormulas st1)"

definition setFormulaQuantity :: "int \<Rightarrow> string \<Rightarrow> int \<Rightarrow> crafting_state \<Rightarrow> crafting_state" where
  "setFormulaQuantity index itemUUID' quantity' st =
     (case prepData_at st index itemUUID' of
        None \<Rightarrow> st
      | Some prepData \<Rightarrow>
          let fs = preparedFormulas (entry st);
              st1 = set_preparedFormulas (fs[nat index := prepData\<lparr>quantity := Some quantity'\<rparr>]) st
          in if quantity' \<le> 0 then unprepareFormula index itemUUID' st1
             else updateActorEntryFormulas st1)"

definition toggleFormulaExpended :: "int \<Rightarrow> string \<Rightarrow> crafting_state \<Rightarrow> crafting_state" where
  "toggleFormulaExpended index itemUUID' st =
     (case prepData_at st index itemUUID' of
        None \<Rightarrow> st
      | Some prepData \<Rightarrow>
          let fs = preparedFormulas (entry st) in
          updateActorEntryFormulas
            (set_preparedFormulas
               (fs[nat index := prepData\<lparr>expended := Some (\<not> truthy (expended prepData))\<rparr>]) st))"

definition toggleSignatureItem :: "int \<Rightarrow> string \<Rightarrow> crafting_state \<Rightarrow> crafting_state" where
  "toggleSignatureItem index itemUUID' st =
     (case prepData_at st index itemUUID' of
        None \<Rightarrow> st
      | Some prepData \<Rightarrow>
          let fs = preparedFormulas (entry st) in
          updateActorEntryFormulas
            (set_preparedFormulas
               (fs[nat index := prepData\<lparr>isSignatureItem := Some (\<not> truthy (isSignatureItem prepData))\<rparr>])
               st))"

text \<open>The proficiency bonus as the specification words it: 0 at rank 0, and
  \<open>rank * 2 + level\<close> otherwise.\<close>

definition spec_proficiency_bonus :: "int \<Rightarrow> jsnum \<Rightarrow> jsnum" where
  "spec_proficiency_bonus rank level = (if rank = 0 then Fin 0 else jadd (Fin (rank * 2)) level)"

text \<open>Eligibility for field discovery as the specification words it: the formula is within
  the entry's maximum field-discovery item level (when there is one), and either the
  entry's field discovery is one of the item's traits or its consumable type, or the
  formula is a signature item.\<close>

definition spec_field_discovery_eligible :: "CraftingEntry \<Rightarrow> PreparedFormula \<Rightarrow> bool" where
  "spec_field_discovery_eligible this formula \<longleftrightarrow>
     (case maxFieldDiscoveryItemLevel this of None \<Rightarrow> True | Some m \<Rightarrow> formula_level formula \<le> m)
     \<and> ((case fieldDiscovery this of
           None \<Rightarrow> False
         | Some fd \<Rightarrow> fd \<in> item_traits (formula_item formula)
                      \<or> (physical_type (formula_item formula) = ''consumable''
                          \<and> fd = consumableType (formula_item formula)))
        \<or> isSignatureItem formula = Some True)"

section \<open>Sample data\<close>

definition example_character :: actor where
  "example_character =
     \<lparr>actor_type = ''character'',
      actor_data =
        \<lparr>abilities = [(''dex'', \<lparr>abl_value = 14, abl_mod = 0\<rparr>),
                      (''int'', \<lparr>abl_value = 9, abl_mod = 0\<rparr>),
                      (''wis'', \<lparr>abl_value = 18, abl_mod = 0\<rparr>)],
         saves = [(''reflex'', \<lparr>sav_rank = 2, sav_ability = ''dex'', sav_item = 1,
                                sav_value = Fin 0, sav_breakdown = []\<rparr>)],
         martial = [(''simple'', \<lparr>mar_rank = 1, mar_value = Fin 0, mar_breakdown = []\<rparr>),
                    (''advanced'', \<lparr>mar_rank = 0, mar_value = Fin 0, mar_breakdown = []\<rparr>)],
         skills = [(''acr'', \<lparr>skl_rank = 1, skl_ability = ''dex'', skl_item = 0,
                              skl_armor = True, skl_mod = None, skl_value = Fin 0,
                              skl_breakdown = []\<rparr>),
                   (''arc'', \<lparr>skl_rank = 0, skl_ability = ''int'', skl_item = 2,
                              skl_armor = False, skl_mod = None, skl_value = Fin 0,
                              skl_breakdown = []\<rparr>)],
         attributes =
           \<lparr>perception = \<lparr>sav_rank = 1, sav_ability = ''wis'', sav_item = 0,
                           sav_value = Fin 0, sav_breakdown = []\<rparr>,
            spelldc = \<lparr>sdc_rank = 0, sdc_item = 0, sdc_value = Fin 0, sdc_dc = Fin 0,
                        sdc_breakdown = []\<rparr>,
            spellcasting_value = None,
            ac_check = Some (- 1),
            hp = \<lparr>hp_value = 10, hp_max = 20, hp_temp = JString []\<rparr>\<rparr>,
         details = \<lparr>level_value = JString ''5'', xp_value = 250, xp_max = 0, xp_pct = 0\<rparr>,
         traits = \<lparr>dr = TLegacy (JString []), di = TArray [], dv = TArray [],
                    ci = TArray [], languages = TArray [''common'']\<rparr>\<rparr>\<rparr>"


definition example_config :: config where
  "example_config = \<lparr>damageTypes = [], conditionTypes = [], config_languages = []\<rparr>"

definition example_item :: PhysicalItem where
  "example_item = \<lparr>uuid = ''Item.bomb'', item_traits = {''alchemical'', ''bomb''},
                    physical_type = ''weapon'', consumableType = []\<rparr>"

definition example_formula :: PreparedFormula where
  "example_formula = \<lparr>formula_uuid = ''Item.bomb'', formula_level = 5, formula_item = example_item,
                       quantity = None, expended = None, isSignatureItem = None\<rparr>"

definition example_entry :: CraftingEntry where
  "example_entry = \<lparr>preparedFormulas = [], selector = ''alchemist'', isAlchemical = False,
                     requiredTraits = [''alchemical''] # [], maxSlots = 1, fieldDiscovery = None,
                     batchSize = None, fieldDiscoveryBatchSize = None, maxItemLevel = 1,
                     maxFieldDiscoveryItemLevel = None, parentActor_level = 1\<rparr>"

text \<open>An alchemical entry whose field discovery is the trait \<^verbatim>\<open>bomb\<close>, up to item level 5.\<close>

definition example_discovery_entry :: CraftingEntry where
  "example_discovery_entry =
     example_entry\<lparr>isAlchemical := True, fieldDiscovery := Some ''bomb'',
                    maxFieldDiscoveryItemLevel := Some 5,
                    preparedFormulas :=
                      [example_formula\<lparr>quantity := Some 5\<rparr>,
                       example_formula\<lparr>quantity := Some 5, formula_level := 6\<rparr>,
                       example_formula\<lparr>quantity := Some 4, formula_level := 6,
                                        isSignatureItem := Some True\<rparr>,
                       example_formula\<lparr>formula_item := example_item\<lparr>item_traits := {}\<rparr>\<rparr>]\<rparr>"

definition example_state :: "CraftingEntry \<Rightarrow> crafting_state" where
  "example_state e = \<lparr>entry = e, notifications = [], actor_updates = []\<rparr>"

text \<open>A change set that nulls the description and also changes the rules and the name,
  and a hook environment with one rule element, which marks the change set as seen.\<close>

definition example_change :: "string list item_change" where
  "example_change =
     \<lparr>change_system = Value \<lparr>system_description = Value \<lparr>description_value = Null\<rparr>,
                             system_other = [''rules'']\<rparr>,
      change_other = [''name'']\<rparr>"

definition example_env :: "(string list, bool) hook_env" where
  "example_env = \<lparr>adjusts_hp = True, clone_hp_max = (\<lambda>_. 25), actor_hp_max = 20,
                   actor_hp_value = 7,
                   rules_preUpdate = [\<lambda>c. c\<lparr>change_other := change_other c @ [''seen'']\<rparr>],
                   super_preUpdate = (\<lambda>c. description_value_of c = Value [])\<rparr>"

definition example_item_doc :: ItemPF2e where
  "example_item_doc = \<lparr>item_id = ''abc'', item_name = ''Flames'', item_slug = Some ''flames'',
                        item_type = ''feat'', system_traits = Some [''oracle'', ''fire''],
                        system_level = Some 1, isFeature = True, item_consumableType = []\<rparr>"


section \<open>Reading a number back from its numeral\<close>

text \<open>\<^verbatim>\<open>parseInt\<close> of an integer below \<open>10\<^sup>2\<^sup>1\<close> in absolute value is that integer:
  its decimal numeral has no leading white space, no \<^verbatim>\<open>0x\<close> prefix and only decimal
  digits after the sign. From \<open>10\<^sup>2\<^sup>1\<close> on, \<^verbatim>\<open>parseInt\<close> reads the exponent form only as
  far as its first digit.\<close>

lemma digit_char_value:
  assumes "k < 10"
  shows "digit_value (''0123456789'' ! k) = Some k"
proof -
  from assms have "k \<in> {0, 1, 2, 3, 4, 5, 6, 7, 8, 9}" by auto
  then show ?thesis by (auto simp: digit_value_def)
qed

lemma digit_char_is_digit: "k < 10 \<Longrightarrow> is_digit 10 (''0123456789'' ! k)"
  by (simp add: is_digit_def digit_char_value)

lemma digit_char_plain:
  assumes "k < 10"
  shows "\<not> is_white_space (''0123456789'' ! k)"
    and "''0123456789'' ! k \<noteq> CHR ''-''" and "''0123456789'' ! k \<noteq> CHR ''+''"
    and "''0123456789'' ! k \<noteq> CHR ''x''" and "''0123456789'' ! k \<noteq> CHR ''X''"
proof -
  from assms have "k \<in> {0, 1, 2, 3, 4, 5, 6, 7, 8, 9}" by auto
  then show "\<not> is_white_space (''0123456789'' ! k)"
    and "''0123456789'' ! k \<noteq> CHR ''-''" and "''0123456789'' ! k \<noteq> CHR ''+''"
    and "''0123456789'' ! k \<noteq> CHR ''x''" and "''0123456789'' ! k \<noteq> CHR ''X''"
    by (auto simp: is_white_space_def)
qed

lemma nat_digits_chars: "c \<in> set (nat_digits n) \<Longrightarrow> \<exists>k < 10. c = ''0123456789'' ! k"
proof (induction n rule: nat_digits.induct)
  case (1 n)
  show ?case
  proof (cases "n < 10")
    case True
    with "1.prems" show ?thesis by (auto simp: nat_digits.simps [of n])
  next
    case False
    with "1.prems" have "c \<in> set (nat_digits (n div 10)) \<or> c = ''0123456789'' ! (n mod 10)"
      by (auto simp: nat_digits.simps [of n])
    then show ?thesis
    proof
      assume "c \<in> set (nat_digits (n div 10))"
      with False "1.IH" show ?thesis by blast
    next
      assume "c = ''0123456789'' ! (n mod 10)"
      moreover have "n mod 10 < 10" by simp
      ultimately show ?thesis by blast
    qed
  qed
qed

lemma nat_digits_nonempty: "nat_digits n \<noteq> []"
  by (subst nat_digits.simps) simp

lemma digits_value_snoc:
  "digits_value r (ds @ [c]) = digits_value r ds * r + the (digit_value c)"
  by (simp add: digits_value_def)

lemma digits_value_nat_digits: "digits_value 10 (nat_digits n) = n"
proof (induction n rule: nat_digits.induct)
  case (1 n)
  show ?case
  proof (cases "n < 10")
    case True
    then show ?thesis
      by (simp add: nat_digits.simps [of n] digits_value_def digit_char_value)
  next
    case False
    with "1.IH" have "digits_value 10 (nat_digits (n div 10)) = n div 10" by simp
    moreover have "the (digit_value (''0123456789'' ! (n mod 10))) = n mod 10"
      by (simp add: digit_char_value)
    ultimately show ?thesis
      using False by (simp add: nat_digits.simps [of n] digits_value_snoc)
  qed
qed

lemma takeWhile_nat_digits: "takeWhile (is_digit 10) (nat_digits n) = nat_digits n"
proof -
  have "is_digit 10 c" if "c \<in> set (nat_digits n)" for c
    using nat_digits_chars [OF that] digit_char_is_digit by blast
  then show ?thesis by (simp add: takeWhile_eq_all_conv)
qed

lemma nat_digits_char_plain:
  assumes "c \<in> set (nat_digits n)"
  shows "\<not> is_white_space c" "c \<noteq> CHR ''-''" "c \<noteq> CHR ''+''" "c \<noteq> CHR ''x''" "c \<noteq> CHR ''X''"
proof -
  from nat_digits_chars [OF assms] obtain k where k: "k < 10" and c: "c = ''0123456789'' ! k"
    by blast
  show "\<not> is_white_space c" "c \<noteq> CHR ''-''" "c \<noteq> CHR ''+''" "c \<noteq> CHR ''x''" "c \<noteq> CHR ''X''"
    unfolding c by (rule digit_char_plain [OF k])+
qed

lemma nat_digits_hd:
  "\<exists>c r. nat_digits n = c # r \<and> \<not> is_white_space c \<and> c \<noteq> CHR ''-'' \<and> c \<noteq> CHR ''+''
     \<and> (\<forall>d r'. r = d # r' \<longrightarrow> d \<noteq> CHR ''x'' \<and> d \<noteq> CHR ''X'')"
proof -
  obtain c r where cr: "nat_digits n = c # r"
    using nat_digits_nonempty [of n] by (cases "nat_digits n") auto
  have "c \<in> set (nat_digits n)" by (simp add: cr)
  note c = nat_digits_char_plain [OF this]
  have d: "d \<noteq> CHR ''x'' \<and> d \<noteq> CHR ''X''" if "r = d # r'" for d r'
  proof -
    have "d \<in> set (nat_digits n)" by (simp add: cr that)
    from nat_digits_char_plain [OF this] show ?thesis by simp
  qed
  show ?thesis
  proof (intro exI conjI allI impI)
    show "nat_digits n = c # r" by (rule cr)
    show "\<not> is_white_space c" "c \<noteq> CHR ''-''" "c \<noteq> CHR ''+''" by (rule c)+
    fix d r' assume "r = d # r'"
    then show "d \<noteq> CHR ''x''" "d \<noteq> CHR ''X''" using d by blast+
  qed
qed

lemma nat_digits_plain:
  "dropWhile is_white_space (nat_digits n) = nat_digits n"
  "strip_sign (nat_digits n) = (False, nat_digits n)"
  "strip_radix (nat_digits n) = (10, nat_digits n)"
proof -
  obtain c r where cr: "nat_digits n = c # r" and c: "\<not> is_white_space c" "c \<noteq> CHR ''-''" "c \<noteq> CHR ''+''"
    and d: "\<And>d r'. r = d # r' \<Longrightarrow> d \<noteq> CHR ''x'' \<and> d \<noteq> CHR ''X''"
    using nat_digits_hd [of n] by blast
  show "dropWhile is_white_space (nat_digits n) = nat_digits n"
    using c by (simp add: cr)
  show "strip_sign (nat_digits n) = (False, nat_digits n)"
    using c by (simp add: cr strip_sign_def)
  show "strip_radix (nat_digits n) = (10, nat_digits n)"
    using d by (cases r) (simp_all add: cr strip_radix_def)
qed

lemma parseInt_string_nat_digits:
  "parseInt_string (nat_digits n) = Fin (int n)"
  by (simp add: parseInt_string_def nat_digits_plain takeWhile_nat_digits
      digits_value_nat_digits nat_digits_nonempty)

lemma parseInt_string_minus_nat_digits:
  "parseInt_string (CHR ''-'' # nat_digits n) = Fin (- int n)"
proof -
  have "dropWhile is_white_space (CHR ''-'' # nat_digits n) = CHR ''-'' # nat_digits n"
    by (simp add: is_white_space_def)
  moreover have "strip_sign (CHR ''-'' # nat_digits n) = (True, nat_digits n)"
    by (simp add: strip_sign_def)
  ultimately show ?thesis
    by (simp add: parseInt_string_def nat_digits_plain takeWhile_nat_digits
        digits_value_nat_digits nat_digits_nonempty del: dropWhile.simps)
qed

lemma parseInt_string_int_str:
  assumes "\<bar>i\<bar> < 1000000000000000000000"
  shows "parseInt_string (int_str i) = Fin i"
proof (cases "i < 0")
  case True
  with assms have "nat (- i) < 1000000000000000000000" by linarith
  with True show ?thesis
    by (simp add: int_str_def nat_str_def parseInt_string_minus_nat_digits)
next
  case False
  with assms have "nat i < 1000000000000000000000" by linarith
  with False show ?thesis
    by (simp add: int_str_def nat_str_def parseInt_string_nat_digits)
qed

lemma parseInt_string_words:
  "parseInt_string ''NaN'' = NaN"
  "parseInt_string ''Infinity'' = NaN"
  "parseInt_string ''-Infinity'' = NaN"
  "parseInt_string ''undefined'' = NaN"
  "parseInt_string ''null'' = NaN"
  "parseInt_string [] = NaN"
  by (simp_all add: parseInt_string_def strip_sign_def strip_radix_def is_white_space_def
      is_digit_def digit_value_def)

lemma parseInt_simps [simp]:
  "parseInt (JString s) = parseInt_string s"
  "\<bar>i\<bar> < 1000000000000000000000 \<Longrightarrow> parseInt (JNumber (Fin i)) = Fin i"
  "parseInt (JNumber NaN) = NaN"
  "parseInt (JNumber PosInf) = NaN"
  "parseInt (JNumber NegInf) = NaN"
  "parseInt JUndefined = NaN"
  "parseInt JNull = NaN"
  by (simp_all add: parseInt_def parseInt_string_int_str parseInt_string_words)




section \<open>Ability modifiers\<close>

lemma prepareCharacterData_abilities:
  "prepareCharacterData d = Inr d' \<Longrightarrow> abilities d' = abilities d"
  by (auto simp: prepareCharacterData_def Let_def split: sum.splits)

lemma prepareData_abilities:
  assumes "prepareData base bc cfg a = Inr a'"
  shows "abilities (actor_data a') = prepare_abilities (abilities (actor_data (base a)))"
  using assms
  by (auto simp: prepareData_def Let_def prepareNPCData_def split: sum.splits if_splits
      dest!: prepareCharacterData_abilities)

lemma prepare_abilities_mod:
  "(k, abl) \<in> set (prepare_abilities abls) \<Longrightarrow> abl_mod abl = \<lfloor>(of_int (abl_value abl) - 10) / (2 :: rat)\<rfloor>"
proof -
  assume "(k, abl) \<in> set (prepare_abilities abls)"
  then obtain abl0 where "abl = abl0\<lparr>abl_mod := (abl_value abl0 - 10) div 2\<rparr>"
    by (auto simp: prepare_abilities_def)
  then have "abl_mod abl = (abl_value abl - 10) div 2" by simp
  also have "\<dots> = \<lfloor>(of_int (abl_value abl - 10) :: rat) / of_int 2\<rfloor>"
    by (simp only: floor_divide_of_int_eq)
  finally show ?thesis by simp
qed

lemma prepare_abilities_values:
  "map (\<lambda>(k, abl). (k, abl_value abl)) (prepare_abilities abls) = map (\<lambda>(k, abl). (k, abl_value abl)) abls"
  by (induction abls) (auto simp: prepare_abilities_def)

text \<open>
  Claim C6. Data preparation sets the modifier of every ability to
  \<open>\<lfloor>(v - 10) / 2\<rfloor>\<close>, where \<open>v\<close> is the ability's score, and leaves the scores as
  they were; the scores 10, 11, 12, 9 and 18 give the modifiers 0, 0, 1, -1 and 4.
\<close>

theorem ability_modifier_floor:
  "(prepareData base bc cfg a = Inr a' \<longrightarrow>
      list_all (\<lambda>(k, abl). abl_mod abl = \<lfloor>(of_int (abl_value abl) - 10) / (2 :: rat)\<rfloor>)
        (abilities (actor_data a'))
      \<and> map (\<lambda>(k, abl). (k, abl_value abl)) (abilities (actor_data a'))
        = map (\<lambda>(k, abl). (k, abl_value abl)) (abilities (actor_data (base a))))
   \<and> list_all (\<lambda>(k, abl). abl_mod abl = \<lfloor>(of_int (abl_value abl) - 10) / (2 :: rat)\<rfloor>)
        (prepare_abilities abls)
   \<and> map (\<lambda>(k, abl). abl_mod abl)
        (prepare_abilities (map (\<lambda>v. (key, \<lparr>abl_value = v, abl_mod = m\<rparr>)) [10, 11, 12, 9, 18]))
     = [0, 0, 1, - 1, 4]"
proof -
  have A: "list_all (\<lambda>(k, abl). abl_mod abl = \<lfloor>(of_int (abl_value abl) - 10) / (2 :: rat)\<rfloor>)
        (prepare_abilities xs)" for xs
    unfolding list_all_iff using prepare_abilities_mod by fastforce
  have B: "map (\<lambda>(k, abl). abl_mod abl)
        (prepare_abilities (map (\<lambda>v. (key, \<lparr>abl_value = v, abl_mod = m\<rparr>)) [10, 11, 12, 9, 18]))
     = [0, 0, 1, - 1, 4]"
    by (simp add: prepare_abilities_def)
  have C: "abilities (actor_data a') = prepare_abilities (abilities (actor_data (base a)))"
    if "prepareData base bc cfg a = Inr a'"
    using that by (rule prepareData_abilities)
  show ?thesis
    using A B by (simp add: C prepare_abilities_values)
qed


lemma parseInt_string_5: "parseInt_string ''5'' = Fin 5"
  by (simp add: parseInt_string_def strip_sign_def strip_radix_def is_white_space_def is_digit_def
      digit_value_def digits_value_def)

lemma example_character_prepared:
  "\<exists>a'. prepareData id (\<lambda>_ _. []) example_config example_character = Inr a'"
  by (simp add: prepareData_def example_character_def example_config_def prepare_abilities_def
     prepareCharacterData_def Let_def parseInt_string_5 for_values_def on_value_def prepare_save_def
     ability_mod_def prepare_spelldc_def prepare_skill_def)

theorem ability_modifier_floor_witness:
  "\<exists>a'. prepareData id (\<lambda>_ _. []) example_config example_character = Inr a'
     \<and> list_all (\<lambda>(k, abl). abl_mod abl = \<lfloor>(of_int (abl_value abl) - 10) / (2 :: rat)\<rfloor>)
          (abilities (actor_data a'))
     \<and> map (\<lambda>(k, abl). (k, abl_value abl)) (abilities (actor_data a'))
         = [(''dex'', 14), (''int'', 9), (''wis'', 18)]"
proof -
  obtain a' where a': "prepareData id (\<lambda>_ _. []) example_config example_character = Inr a'"
    using example_character_prepared by blast
  have "map (\<lambda>(k, abl). (k, abl_value abl)) (abilities (actor_data (id example_character)))
         = [(''dex'', 14), (''int'', 9), (''wis'', 18)]"
    by (simp add: example_character_def)
  with a' ability_modifier_floor [of id "\<lambda>_ _. []" example_config example_character a']
  show ?thesis by auto
qed

section \<open>Idempotence of data preparation\<close>
























section \<open>Proficiency, values and breakdowns\<close>


lemma on_value_Inr:
  "on_value f kv = Inr kv' \<Longrightarrow> fst kv' = fst kv \<and> f (snd kv) = Inr (snd kv')"
  by (auto simp: on_value_def split: sum.splits)




lemma prepare_save_Inr:
  assumes "prepare_save abls level s = Inr s'"
  shows "\<exists>m. ability_mod abls (sav_ability s) = Inr m
    \<and> sav_rank s' = sav_rank s \<and> sav_ability s' = sav_ability s \<and> sav_item s' = sav_item s
    \<and> sav_value s' = jadd (jadd (mod_number m) (proficiency (sav_rank s) level)) (Fin (sav_item s))
    \<and> sav_breakdown s' = sav_ability s @ '' modifier('' @ mod_str m
                    @ '') + proficiency('' @ jsnum_str (proficiency (sav_rank s) level)
                    @ '') + item bonus('' @ int_str (sav_item s) @ '')''"
proof (cases "ability_mod abls (sav_ability s)")
  case (Inl e)
  with assms show ?thesis by (simp add: prepare_save_def)
next
  case (Inr m)
  with assms have "s' = s\<lparr>sav_value := jadd (jadd (mod_number m) (proficiency (sav_rank s) level)) (Fin (sav_item s)),
                 sav_breakdown := sav_ability s @ '' modifier('' @ mod_str m
                    @ '') + proficiency('' @ jsnum_str (proficiency (sav_rank s) level)
                    @ '') + item bonus('' @ int_str (sav_item s) @ '')''\<rparr>"
    by (simp add: prepare_save_def Let_def)
  then show ?thesis using Inr by simp
qed

lemma prepare_spelldc_Inr:
  assumes "prepare_spelldc abls level spellcasting sd = Inr sd'"
    and "spellAbl = (case spellcasting of None \<Rightarrow> ''int'' | Some v \<Rightarrow> if v = [] then ''int'' else v)"
  shows "\<exists>m. ability_mod abls spellAbl = Inr m
    \<and> sdc_rank sd' = sdc_rank sd \<and> sdc_item sd' = sdc_item sd
    \<and> sdc_value sd' = jadd (jadd (mod_number m) (proficiency (sdc_rank sd) level)) (Fin (sdc_item sd))
    \<and> sdc_dc sd' = jadd (sdc_value sd') (Fin 10)
    \<and> sdc_breakdown sd' = ''10 + '' @ spellAbl @ '' modifier('' @ mod_str m
                        @ '') + proficiency('' @ jsnum_str (proficiency (sdc_rank sd) level)
                        @ '') + item bonus('' @ int_str (sdc_item sd) @ '')''"
proof (cases "ability_mod abls spellAbl")
  case (Inl e)
  with assms show ?thesis by (simp add: prepare_spelldc_def)
next
  case (Inr m)
  with assms have "sd' = sd\<lparr>sdc_value := jadd (jadd (mod_number m) (proficiency (sdc_rank sd) level)) (Fin (sdc_item sd)),
                   sdc_dc := jadd (jadd (jadd (mod_number m) (proficiency (sdc_rank sd) level)) (Fin (sdc_item sd)))
                               (Fin 10),
                   sdc_breakdown := ''10 + '' @ spellAbl @ '' modifier('' @ mod_str m
                        @ '') + proficiency('' @ jsnum_str (proficiency (sdc_rank sd) level)
                        @ '') + item bonus('' @ int_str (sdc_item sd) @ '')''\<rparr>"
    by (simp add: prepare_spelldc_def Let_def)
  then show ?thesis using Inr by simp
qed

lemma prepare_skill_Inr:
  assumes "prepare_skill abls level check skl = Inr skl'"
    and "acp = (case check of None \<Rightarrow> 0 | Some c \<Rightarrow> c)"
  shows "\<exists>m. ability_mod abls (skl_ability skl) = Inr m
    \<and> skl_rank skl' = skl_rank skl \<and> skl_ability skl' = skl_ability skl
    \<and> skl_item skl' = skl_item skl \<and> skl_armor skl' = skl_armor skl
    \<and> skl_mod skl' = m
    \<and> skl_value skl' =
          (if skl_armor skl
           then jadd (jadd (jadd (mod_number m) (proficiency (skl_rank skl) level)) (Fin (skl_item skl)))
                  (Fin acp)
           else jadd (jadd (mod_number m) (proficiency (skl_rank skl) level)) (Fin (skl_item skl)))
    \<and> skl_breakdown skl' =
          (if skl_armor skl
           then skl_ability skl @ '' modifier('' @ mod_str m
              @ '') + proficiency('' @ jsnum_str (proficiency (skl_rank skl) level)
              @ '') + item bonus('' @ int_str (skl_item skl)
              @ '') + armor check penalty('' @ int_str acp @ '')''
           else skl_ability skl @ '' modifier('' @ mod_str m
              @ '') + proficiency('' @ jsnum_str (proficiency (skl_rank skl) level)
              @ '') + item bonus('' @ int_str (skl_item skl) @ '')'')"
proof (cases "ability_mod abls (skl_ability skl)")
  case (Inl e)
  with assms show ?thesis by (simp add: prepare_skill_def)
next
  case (Inr m)
  show ?thesis
  proof (cases "skl_armor skl")
    case True
    with Inr assms have "skl' = skl\<lparr>skl_mod := m,
           skl_value := jadd (jadd (jadd (mod_number m) (proficiency (skl_rank skl) level)) (Fin (skl_item skl)))
                          (Fin acp),
           skl_breakdown := skl_ability skl @ '' modifier('' @ mod_str m
              @ '') + proficiency('' @ jsnum_str (proficiency (skl_rank skl) level)
              @ '') + item bonus('' @ int_str (skl_item skl)
              @ '') + armor check penalty('' @ int_str acp @ '')''\<rparr>"
      by (simp add: prepare_skill_def Let_def)
    then show ?thesis using Inr True by simp
  next
    case False
    with Inr assms have "skl' = skl\<lparr>skl_mod := m,
           skl_value := jadd (jadd (mod_number m) (proficiency (skl_rank skl) level)) (Fin (skl_item skl)),
           skl_breakdown := skl_ability skl @ '' modifier('' @ mod_str m
              @ '') + proficiency('' @ jsnum_str (proficiency (skl_rank skl) level)
              @ '') + item bonus('' @ int_str (skl_item skl) @ '')''\<rparr>"
      by (simp add: prepare_skill_def Let_def)
    then show ?thesis using Inr False by simp
  qed
qed

lemma prepare_martial_fields:
  "mar_rank (prepare_martial level s) = mar_rank s"
  "mar_value (prepare_martial level s) = proficiency (mar_rank s) level"
  "mar_breakdown (prepare_martial level s)
     = ''proficiency('' @ jsnum_str (proficiency (mar_rank s) level) @ '')''"
  by (simp_all add: prepare_martial_def Let_def)

lemma prepareCharacterData_parts:
  assumes "prepareCharacterData d = Inr d'" and "level = parseInt (level_value (details d))"
  shows "for_values (prepare_save (abilities d) level) (saves d) = Inr (saves d')"
    and "martial d' = map (\<lambda>(k, skl). (k, prepare_martial level skl)) (martial d)"
    and "prepare_save (abilities d) level (perception (attributes d)) = Inr (perception (attributes d'))"
    and "prepare_spelldc (abilities d) level (spellcasting_value (attributes d)) (spelldc (attributes d))
           = Inr (spelldc (attributes d'))"
    and "for_values (prepare_skill (abilities d) level (ac_check (attributes d))) (skills d)
           = Inr (skills d')"
  using assms unfolding prepareCharacterData_def Let_def
  by (auto split: sum.splits)

lemma proficiency_spec: "proficiency rank level = spec_proficiency_bonus rank level"
  by (simp add: proficiency_def spec_proficiency_bonus_def)

lemma mapE_list_all2:
  "mapE f xs = Inr ys \<Longrightarrow> list_all2 (\<lambda>x y. f x = Inr y) xs ys"
proof (induction xs arbitrary: ys)
  case Nil
  then show ?case by simp
next
  case (Cons x xs)
  from Cons.prems obtain y ys' where "f x = Inr y" "mapE f xs = Inr ys'" "ys = y # ys'"
    by (auto split: sum.splits)
  with Cons.IH [of ys'] show ?case by simp
qed

lemma for_values_list_all2:
  assumes "for_values f kvs = Inr kvs'"
  shows "list_all2 (\<lambda>kv kv'. fst kv' = fst kv \<and> f (snd kv) = Inr (snd kv')) kvs kvs'"
  using mapE_list_all2 [OF assms [unfolded for_values_def]]
  by (rule list_all2_mono) (erule on_value_Inr)

lemma list_all2_map_self:
  "(\<And>x. x \<in> set xs \<Longrightarrow> P x (f x)) \<Longrightarrow> list_all2 P xs (map f xs)"
  by (induction xs) simp_all

text \<open>
  Claim C4. The character's data preparation keeps every save, martial skill and skill, in
  order and under its key and rank, and the proficiency term of each of them, of
  perception and of the spell DC is the specification's bonus for the entry's rank and the
  character's level: 0 at rank 0 whatever the level, and \<open>rank * 2 + level\<close> otherwise; rank
  2 at level 5 gives 9. For a martial skill the term is the value itself and is shown in
  the breakdown; elsewhere it is the addend between the ability modifier and the item bonus.
\<close>

theorem proficiency_term:
  assumes run: "prepareCharacterData d = Inr d'"
    and level: "level = parseInt (level_value (details d))"
  shows "list_all2
           (\<lambda>(k, s) (k', s'). k' = k \<and> sav_rank s' = sav_rank s
              \<and> (\<exists>m. ability_mod (abilities d) (sav_ability s) = Inr m
                   \<and> sav_value s' = jadd (jadd (mod_number m)
                                              (spec_proficiency_bonus (sav_rank s) level))
                                       (Fin (sav_item s))))
           (saves d) (saves d')
       \<and> list_all2
           (\<lambda>(k, s) (k', s'). k' = k \<and> mar_rank s' = mar_rank s
              \<and> mar_value s' = spec_proficiency_bonus (mar_rank s) level
              \<and> mar_breakdown s'
                  = ''proficiency('' @ jsnum_str (spec_proficiency_bonus (mar_rank s) level) @ '')'')
           (martial d) (martial d')
       \<and> sav_rank (perception (attributes d')) = sav_rank (perception (attributes d))
       \<and> (\<exists>m. ability_mod (abilities d) (sav_ability (perception (attributes d))) = Inr m
            \<and> sav_value (perception (attributes d'))
              = jadd (jadd (mod_number m)
                        (spec_proficiency_bonus (sav_rank (perception (attributes d))) level))
                  (Fin (sav_item (perception (attributes d)))))
       \<and> sdc_rank (spelldc (attributes d')) = sdc_rank (spelldc (attributes d))
       \<and> (\<exists>m. ability_mod (abilities d)
                 (case spellcasting_value (attributes d) of
                    None \<Rightarrow> ''int'' | Some v \<Rightarrow> if v = [] then ''int'' else v) = Inr m
            \<and> sdc_value (spelldc (attributes d'))
              = jadd (jadd (mod_number m)
                        (spec_proficiency_bonus (sdc_rank (spelldc (attributes d))) level))
                  (Fin (sdc_item (spelldc (attributes d)))))
       \<and> list_all2
           (\<lambda>(k, s) (k', s'). k' = k \<and> skl_rank s' = skl_rank s
              \<and> (\<exists>m. ability_mod (abilities d) (skl_ability s) = Inr m
                   \<and> skl_value s'
                       = (let v = jadd (jadd (mod_number m)
                                          (spec_proficiency_bonus (skl_rank s) level))
                                    (Fin (skl_item s))
                          in if skl_armor s
                             then jadd v (Fin (case ac_check (attributes d) of
                                                 None \<Rightarrow> 0 | Some c \<Rightarrow> c))
                             else v)))
           (skills d) (skills d')
       \<and> spec_proficiency_bonus 0 level = Fin 0
       \<and> spec_proficiency_bonus 2 (Fin 5) = Fin 9"
proof -
  note parts = prepareCharacterData_parts [OF run level]
  have saves: "list_all2
           (\<lambda>(k, s) (k', s'). k' = k \<and> sav_rank s' = sav_rank s
              \<and> (\<exists>m. ability_mod (abilities d) (sav_ability s) = Inr m
                   \<and> sav_value s' = jadd (jadd (mod_number m)
                                              (spec_proficiency_bonus (sav_rank s) level))
                                       (Fin (sav_item s))))
           (saves d) (saves d')"
  proof (rule list_all2_mono [OF for_values_list_all2 [OF parts(1)]])
    fix kv kv' :: "string \<times> save"
    assume *: "fst kv' = fst kv \<and> prepare_save (abilities d) level (snd kv) = Inr (snd kv')"
    obtain k s where kv: "kv = (k, s)" by (cases kv)
    obtain k' s' where kv': "kv' = (k', s')" by (cases kv')
    from * have "prepare_save (abilities d) level s = Inr s'" and "k' = k"
      by (simp_all add: kv kv')
    with prepare_save_Inr [of "abilities d" level s s']
    show "(\<lambda>(k, s) (k', s'). k' = k \<and> sav_rank s' = sav_rank s
              \<and> (\<exists>m. ability_mod (abilities d) (sav_ability s) = Inr m
                   \<and> sav_value s' = jadd (jadd (mod_number m)
                                              (spec_proficiency_bonus (sav_rank s) level))
                                       (Fin (sav_item s)))) kv kv'"
      unfolding proficiency_spec kv kv' by auto
  qed
  have martial: "list_all2
           (\<lambda>(k, s) (k', s'). k' = k \<and> mar_rank s' = mar_rank s
              \<and> mar_value s' = spec_proficiency_bonus (mar_rank s) level
              \<and> mar_breakdown s'
                  = ''proficiency('' @ jsnum_str (spec_proficiency_bonus (mar_rank s) level) @ '')'')
           (martial d) (martial d')"
    unfolding parts(2)
    by (rule list_all2_map_self)
       (auto simp: prepare_martial_fields proficiency_spec)
  have perception: "sav_rank (perception (attributes d')) = sav_rank (perception (attributes d))"
    "\<exists>m. ability_mod (abilities d) (sav_ability (perception (attributes d))) = Inr m
            \<and> sav_value (perception (attributes d'))
              = jadd (jadd (mod_number m)
                        (spec_proficiency_bonus (sav_rank (perception (attributes d))) level))
                  (Fin (sav_item (perception (attributes d))))"
    using prepare_save_Inr [OF parts(3)] unfolding proficiency_spec by blast+
  have spelldc: "sdc_rank (spelldc (attributes d')) = sdc_rank (spelldc (attributes d))"
    "\<exists>m. ability_mod (abilities d)
                 (case spellcasting_value (attributes d) of
                    None \<Rightarrow> ''int'' | Some v \<Rightarrow> if v = [] then ''int'' else v) = Inr m
            \<and> sdc_value (spelldc (attributes d'))
              = jadd (jadd (mod_number m)
                        (spec_proficiency_bonus (sdc_rank (spelldc (attributes d))) level))
                  (Fin (sdc_item (spelldc (attributes d))))"
    using prepare_spelldc_Inr [OF parts(4) refl] unfolding proficiency_spec by blast+
  have skills: "list_all2
           (\<lambda>(k, s) (k', s'). k' = k \<and> skl_rank s' = skl_rank s
              \<and> (\<exists>m. ability_mod (abilities d) (skl_ability s) = Inr m
                   \<and> skl_value s'
                       = (let v = jadd (jadd (mod_number m)
                                          (spec_proficiency_bonus (skl_rank s) level))
                                    (Fin (skl_item s))
                          in if skl_armor s
                             then jadd v (Fin (case ac_check (attributes d) of
                                                 None \<Rightarrow> 0 | Some c \<Rightarrow> c))
                             else v)))
           (skills d) (skills d')"
  proof (rule list_all2_mono [OF for_values_list_all2 [OF parts(5)]])
    fix kv kv' :: "string \<times> skill"
    assume *: "fst kv' = fst kv
         \<and> prepare_skill (abilities d) level (ac_check (attributes d)) (snd kv) = Inr (snd kv')"
    obtain k s where kv: "kv = (k, s)" by (cases kv)
    obtain k' s' where kv': "kv' = (k', s')" by (cases kv')
    from * have "prepare_skill (abilities d) level (ac_check (attributes d)) s = Inr s'"
      and "k' = k"
      by (simp_all add: kv kv')
    with prepare_skill_Inr [of "abilities d" level "ac_check (attributes d)" s s', OF _ refl]
    show "(\<lambda>(k, s) (k', s'). k' = k \<and> skl_rank s' = skl_rank s
              \<and> (\<exists>m. ability_mod (abilities d) (skl_ability s) = Inr m
                   \<and> skl_value s'
                       = (let v = jadd (jadd (mod_number m)
                                          (spec_proficiency_bonus (skl_rank s) level))
                                    (Fin (skl_item s))
                          in if skl_armor s
                             then jadd v (Fin (case ac_check (attributes d) of
                                                 None \<Rightarrow> 0 | Some c \<Rightarrow> c))
                             else v))) kv kv'"
      unfolding proficiency_spec kv kv' by (auto simp: Let_def)
  qed
  have ex: "spec_proficiency_bonus 0 level = Fin 0" "spec_proficiency_bonus 2 (Fin 5) = Fin 9"
    by (simp_all add: spec_proficiency_bonus_def)
  from saves martial perception spelldc skills ex show ?thesis by (intro conjI)
qed

lemma example_data_prepared:
  "\<exists>d'. prepareCharacterData (actor_data example_character) = Inr d'"
  by (simp add: example_character_def prepareCharacterData_def Let_def parseInt_string_5
     for_values_def on_value_def prepare_save_def ability_mod_def prepare_spelldc_def
     prepare_skill_def)

lemma example_level:
  "Fin 5 = parseInt (level_value (details (actor_data example_character)))"
  by (simp add: example_character_def parseInt_string_5)

theorem proficiency_term_witness:
  "\<exists>d'. prepareCharacterData (actor_data example_character) = Inr d'
     \<and> Fin 5 = parseInt (level_value (details (actor_data example_character)))
     \<and> map (\<lambda>(k, s). (k, sav_rank s, sav_value s)) (saves d') = [(''reflex'', 2, Fin 10)]
     \<and> map (\<lambda>(k, s). (k, mar_rank s, mar_value s, mar_breakdown s)) (martial d')
         = [(''simple'', 1, Fin 7, ''proficiency(7)''), (''advanced'', 0, Fin 0, ''proficiency(0)'')]
     \<and> sav_rank (perception (attributes d')) = 1
     \<and> sav_value (perception (attributes d')) = Fin 7
     \<and> sdc_rank (spelldc (attributes d')) = 0
     \<and> sdc_value (spelldc (attributes d')) = Fin 0
     \<and> map (\<lambda>(k, s). (k, skl_rank s, skl_value s)) (skills d')
         = [(''acr'', 1, Fin 6), (''arc'', 0, Fin 2)]"
proof -
  obtain d' where d': "prepareCharacterData (actor_data example_character) = Inr d'"
    using example_data_prepared by blast
  note t = proficiency_term [OF d' example_level]
  have digit: "int_str 7 = ''7''" "int_str 0 = ''0''"
    by (simp_all add: int_str_def nat_str_def nat_digits.simps)
  have saves: "map (\<lambda>(k, s). (k, sav_rank s, sav_value s)) (saves d') = [(''reflex'', 2, Fin 10)]"
    using t
    by (auto simp: example_character_def list_all2_Cons1 ability_mod_def
        spec_proficiency_bonus_def)
  have martial: "map (\<lambda>(k, s). (k, mar_rank s, mar_value s, mar_breakdown s)) (martial d')
         = [(''simple'', 1, Fin 7, ''proficiency(7)''), (''advanced'', 0, Fin 0, ''proficiency(0)'')]"
    using t
    by (auto simp: example_character_def list_all2_Cons1 spec_proficiency_bonus_def digit)
  have perception: "sav_rank (perception (attributes d')) = 1"
    "sav_value (perception (attributes d')) = Fin 7"
    using t
    by (auto simp: example_character_def ability_mod_def spec_proficiency_bonus_def)
  have spelldc: "sdc_rank (spelldc (attributes d')) = 0"
    "sdc_value (spelldc (attributes d')) = Fin 0"
    using t
    by (auto simp: example_character_def ability_mod_def spec_proficiency_bonus_def)
  have skills: "map (\<lambda>(k, s). (k, skl_rank s, skl_value s)) (skills d')
         = [(''acr'', 1, Fin 6), (''arc'', 0, Fin 2)]"
    using t
    by (auto simp: example_character_def list_all2_Cons1 ability_mod_def
        spec_proficiency_bonus_def)
  from d' example_level saves martial perception spelldc skills show ?thesis
    by (intro exI [of _ d'] conjI)
qed



section \<open>Reagent cost of a crafting entry\<close>

lemma foldl_add_sum_list:
  "foldl (\<lambda>sum x. sum + g x) a xs = a + sum_list (map g xs)" for a :: int
  by (induction xs arbitrary: a) simp_all

lemma formulaBatchSize_spec:
  "formulaBatchSize this formula =
     (if spec_field_discovery_eligible this formula
      then or_default (fieldDiscoveryBatchSize this) 3 else or_default (batchSize this) 2)"
  by (auto simp: formulaBatchSize_def spec_field_discovery_eligible_def Let_def truthy_def
      split: option.splits)

lemma reagentCost_sum:
  "isAlchemical this \<Longrightarrow>
     reagentCost this = (\<Sum>formula\<leftarrow>preparedFormulas this.
        \<lceil>(of_int (or_default (quantity formula) 1) :: rat) / of_int (formulaBatchSize this formula)\<rceil>)"
  by (simp add: reagentCost_def foldl_add_sum_list)

lemma formulaBatchSize_preparedFormulas:
  "formulaBatchSize (this\<lparr>preparedFormulas := fs\<rparr>) formula = formulaBatchSize this formula"
  by (simp add: formulaBatchSize_def)

text \<open>
  Claim C3. For an alchemical entry, \<^verbatim>\<open>reagentCost\<close> is the sum over the prepared formulas
  of \<open>\<lceil>quantity / batch\<rceil>\<close>, a missing or zero quantity counting as 1, where the batch is
  the field-discovery batch size (3 unless the entry sets another) for a formula eligible
  for field discovery and the batch size (2 unless the entry sets another) for any other
  formula. So with batch size 2 and no eligible formula the cost is the sum of
  \<open>\<lceil>quantity / 2\<rceil>\<close>; an eligible formula with field-discovery batch size 3 contributes
  \<open>\<lceil>quantity / 3\<rceil>\<close>, which is \<open>\<lceil>4 / 3\<rceil> = 2\<close> for quantity 4; and for an entry that is not
  alchemical the cost is 0.
\<close>

theorem reagentCost_batches:
  "(isAlchemical this
    \<longrightarrow> reagentCost this
        = (\<Sum>formula\<leftarrow>preparedFormulas this.
              \<lceil>(of_int (case quantity formula of None \<Rightarrow> 1 | Some q \<Rightarrow> if q = 0 then 1 else q) :: rat)
               / of_int (if spec_field_discovery_eligible this formula
                         then (case fieldDiscoveryBatchSize this of
                                 None \<Rightarrow> 3 | Some b \<Rightarrow> if b = 0 then 3 else b)
                         else (case batchSize this of
                                 None \<Rightarrow> 2 | Some b \<Rightarrow> if b = 0 then 2 else b))\<rceil>))
   \<and> (isAlchemical this \<and> or_default (batchSize this) 2 = 2
      \<and> list_all (\<lambda>formula. \<not> spec_field_discovery_eligible this formula) (preparedFormulas this)
    \<longrightarrow> reagentCost this
        = (\<Sum>formula\<leftarrow>preparedFormulas this.
              \<lceil>(of_int (case quantity formula of None \<Rightarrow> 1 | Some q \<Rightarrow> if q = 0 then 1 else q) :: rat) / 2\<rceil>))
   \<and> (isAlchemical this \<and> or_default (fieldDiscoveryBatchSize this) 3 = 3
      \<and> spec_field_discovery_eligible this formula
    \<longrightarrow> reagentCost (this\<lparr>preparedFormulas := fs @ [formula]\<rparr>)
        = reagentCost (this\<lparr>preparedFormulas := fs\<rparr>)
          + \<lceil>(of_int (case quantity formula of None \<Rightarrow> 1 | Some q \<Rightarrow> if q = 0 then 1 else q) :: rat) / 3\<rceil>)
   \<and> (isAlchemical this \<and> or_default (fieldDiscoveryBatchSize this) 3 = 3
      \<and> spec_field_discovery_eligible this formula \<and> quantity formula = Some 4
    \<longrightarrow> reagentCost (this\<lparr>preparedFormulas := fs @ [formula]\<rparr>)
        = reagentCost (this\<lparr>preparedFormulas := fs\<rparr>) + 2
      \<and> \<lceil>(4 :: rat) / 3\<rceil> = 2)
   \<and> (\<not> isAlchemical this \<longrightarrow> reagentCost this = 0)"
proof (intro conjI impI)
  assume "isAlchemical this"
  then show "reagentCost this
        = (\<Sum>formula\<leftarrow>preparedFormulas this.
              \<lceil>(of_int (case quantity formula of None \<Rightarrow> 1 | Some q \<Rightarrow> if q = 0 then 1 else q) :: rat)
               / of_int (if spec_field_discovery_eligible this formula
                         then (case fieldDiscoveryBatchSize this of
                                 None \<Rightarrow> 3 | Some b \<Rightarrow> if b = 0 then 3 else b)
                         else (case batchSize this of
                                 None \<Rightarrow> 2 | Some b \<Rightarrow> if b = 0 then 2 else b))\<rceil>)"
    by (simp only: reagentCost_sum formulaBatchSize_spec or_default_def)
next
  assume a: "isAlchemical this \<and> or_default (batchSize this) 2 = 2
      \<and> list_all (\<lambda>formula. \<not> spec_field_discovery_eligible this formula) (preparedFormulas this)"
  have H: "\<lceil>(of_int (or_default (quantity f) 1) :: rat) / of_int (formulaBatchSize this f)\<rceil>
        = \<lceil>(of_int (case quantity f of None \<Rightarrow> 1 | Some q \<Rightarrow> if q = 0 then 1 else q) :: rat) / 2\<rceil>"
    if "f \<in> set (preparedFormulas this)" for f
    using a that by (simp add: formulaBatchSize_spec list_all_iff or_default_def)
  have "map (\<lambda>f. \<lceil>(of_int (or_default (quantity f) 1) :: rat) / of_int (formulaBatchSize this f)\<rceil>)
               (preparedFormulas this)
        = map (\<lambda>f. \<lceil>(of_int (case quantity f of None \<Rightarrow> 1 | Some q \<Rightarrow> if q = 0 then 1 else q) :: rat) / 2\<rceil>)
               (preparedFormulas this)"
    by (rule map_cong [OF refl H])
  then show "reagentCost this
        = (\<Sum>formula\<leftarrow>preparedFormulas this.
              \<lceil>(of_int (case quantity formula of None \<Rightarrow> 1 | Some q \<Rightarrow> if q = 0 then 1 else q) :: rat) / 2\<rceil>)"
    using a by (simp only: reagentCost_sum)
next
  assume b: "isAlchemical this \<and> or_default (fieldDiscoveryBatchSize this) 3 = 3
      \<and> spec_field_discovery_eligible this formula"
  have "formulaBatchSize this formula = 3"
    using b by (simp add: formulaBatchSize_spec)
  then show "reagentCost (this\<lparr>preparedFormulas := fs @ [formula]\<rparr>)
        = reagentCost (this\<lparr>preparedFormulas := fs\<rparr>)
          + \<lceil>(of_int (case quantity formula of None \<Rightarrow> 1 | Some q \<Rightarrow> if q = 0 then 1 else q) :: rat) / 3\<rceil>"
    using b by (simp add: reagentCost_sum formulaBatchSize_preparedFormulas or_default_def)
next
  assume b: "isAlchemical this \<and> or_default (fieldDiscoveryBatchSize this) 3 = 3
      \<and> spec_field_discovery_eligible this formula \<and> quantity formula = Some 4"
  have c: "\<lceil>(4 :: rat) / 3\<rceil> = 2" by (simp add: ceiling_eq_iff)
  then show "\<lceil>(4 :: rat) / 3\<rceil> = 2" .
  have "formulaBatchSize this formula = 3"
    using b by (simp add: formulaBatchSize_spec)
  then show "reagentCost (this\<lparr>preparedFormulas := fs @ [formula]\<rparr>)
        = reagentCost (this\<lparr>preparedFormulas := fs\<rparr>) + 2"
    using b c by (simp add: reagentCost_sum formulaBatchSize_preparedFormulas or_default_def)
next
  assume "\<not> isAlchemical this"
  then show "reagentCost this = 0" by (simp add: reagentCost_def)
qed

text \<open>The sample entry: an eligible formula of quantity 5 costs \<open>\<lceil>5 / 3\<rceil> = 2\<close>, the same
  formula above the level limit \<open>\<lceil>5 / 2\<rceil> = 3\<close>, a signature item above the level limit
  \<open>\<lceil>4 / 2\<rceil> = 2\<close>, and a formula without the trait and without a quantity 1.\<close>

theorem reagentCost_batches_witness:
  "reagentCost example_discovery_entry = 8
   \<and> reagentCost (example_discovery_entry\<lparr>preparedFormulas :=
         [example_formula\<lparr>quantity := Some 3\<rparr>] @ [example_formula\<lparr>quantity := Some 4\<rparr>]\<rparr>)
       = reagentCost (example_discovery_entry\<lparr>preparedFormulas :=
           [example_formula\<lparr>quantity := Some 3\<rparr>]\<rparr>) + 2
   \<and> reagentCost (example_entry\<lparr>isAlchemical := True,
         preparedFormulas := [example_formula\<lparr>quantity := Some 3\<rparr>, example_formula]\<rparr>) = 3
   \<and> reagentCost example_entry = 0"
proof -
  have ceil: "\<lceil>(5 :: rat) / 3\<rceil> = 2" "\<lceil>(5 :: rat) / 2\<rceil> = 3" "\<lceil>(4 :: rat) / 2\<rceil> = 2"
    "\<lceil>(1 :: rat) / 2\<rceil> = 1" "\<lceil>(3 :: rat) / 2\<rceil> = 2"
    by (simp_all add: ceiling_eq_iff)
  have alch: "isAlchemical example_discovery_entry"
    by (simp add: example_discovery_entry_def)
  from alch reagentCost_batches [of example_discovery_entry]
  have "reagentCost example_discovery_entry
        = (\<Sum>formula\<leftarrow>preparedFormulas example_discovery_entry.
              \<lceil>(of_int (case quantity formula of None \<Rightarrow> 1 | Some q \<Rightarrow> if q = 0 then 1 else q) :: rat)
               / of_int (if spec_field_discovery_eligible example_discovery_entry formula
                         then (case fieldDiscoveryBatchSize example_discovery_entry of
                                 None \<Rightarrow> 3 | Some b \<Rightarrow> if b = 0 then 3 else b)
                         else (case batchSize example_discovery_entry of
                                 None \<Rightarrow> 2 | Some b \<Rightarrow> if b = 0 then 2 else b))\<rceil>)"
    by blast
  also have "\<dots> = 8"
    by (simp add: example_discovery_entry_def example_entry_def example_formula_def
        example_item_def spec_field_discovery_eligible_def ceil)
  finally have 1: "reagentCost example_discovery_entry = 8" .
  let ?f = "example_formula\<lparr>quantity := Some 4\<rparr>"
  have elig: "isAlchemical example_discovery_entry
      \<and> or_default (fieldDiscoveryBatchSize example_discovery_entry) 3 = 3
      \<and> spec_field_discovery_eligible example_discovery_entry ?f \<and> quantity ?f = Some 4"
    by (simp add: example_discovery_entry_def example_entry_def example_formula_def
        example_item_def or_default_def spec_field_discovery_eligible_def)
  from elig reagentCost_batches [of example_discovery_entry ?f "[example_formula\<lparr>quantity := Some 3\<rparr>]"]
  have 2: "reagentCost (example_discovery_entry\<lparr>preparedFormulas :=
         [example_formula\<lparr>quantity := Some 3\<rparr>] @ [?f]\<rparr>)
       = reagentCost (example_discovery_entry\<lparr>preparedFormulas :=
           [example_formula\<lparr>quantity := Some 3\<rparr>]\<rparr>) + 2"
    by blast
  let ?e = "example_entry\<lparr>isAlchemical := True,
       preparedFormulas := [example_formula\<lparr>quantity := Some 3\<rparr>, example_formula]\<rparr>"
  have plain: "isAlchemical ?e \<and> or_default (batchSize ?e) 2 = 2
      \<and> list_all (\<lambda>formula. \<not> spec_field_discovery_eligible ?e formula) (preparedFormulas ?e)"
    by (simp add: example_entry_def example_formula_def or_default_def
        spec_field_discovery_eligible_def)
  from plain reagentCost_batches [of ?e]
  have "reagentCost ?e
        = (\<Sum>formula\<leftarrow>preparedFormulas ?e.
              \<lceil>(of_int (case quantity formula of None \<Rightarrow> 1 | Some q \<Rightarrow> if q = 0 then 1 else q) :: rat) / 2\<rceil>)"
    by blast
  also have "\<dots> = 3"
    by (simp add: example_formula_def example_entry_def ceil)
  finally have 3: "reagentCost ?e = 3" .
  have "\<not> isAlchemical example_entry" by (simp add: example_entry_def)
  with reagentCost_batches [of example_entry] have 4: "reagentCost example_entry = 0"
    by blast
  from 1 2 3 4 show ?thesis by (intro conjI)
qed

section \<open>Preparing a formula\<close>

text \<open>
  Claim C1, evaluated where it fails. A formula of level 5 is prepared by an actor of
  level 1: \<^verbatim>\<open>checkEntryRequirements\<close> answers \<open>False\<close> and warns, and
  \<^verbatim>\<open>prepareFormula\<close> adds the formula and sends the update all the same. With the single
  slot of the entry taken, the check answers \<open>False\<close> without a warning, and the formula
  is added again.
\<close>

theorem prepareFormula_ignores_requirements:
  "checkEntryRequirements example_entry example_formula True = (False, [CharacterLevel])
   \<and> prepareFormula example_formula (example_state example_entry)
     = \<lparr>entry = example_entry\<lparr>preparedFormulas := [example_formula]\<rparr>,
        notifications = [CharacterLevel],
        actor_updates = [(''system.crafting.entries.alchemist.actorPreparedFormulas'',
           [\<lparr>itemUUID = ''Item.bomb'', actor_quantity = None, actor_expended = None,
             actor_isSignatureItem = None\<rparr>])]\<rparr>
   \<and> checkEntryRequirements
        (example_entry\<lparr>preparedFormulas := [example_formula], maxItemLevel := 9,
                        parentActor_level := 9\<rparr>) example_formula True = (False, [])
   \<and> prepareFormula example_formula
        (example_state (example_entry\<lparr>preparedFormulas := [example_formula], maxItemLevel := 9,
                        parentActor_level := 9\<rparr>))
     = \<lparr>entry = example_entry\<lparr>preparedFormulas := [example_formula, example_formula],
                  maxItemLevel := 9, parentActor_level := 9\<rparr>,
        notifications = [],
        actor_updates = [(''system.crafting.entries.alchemist.actorPreparedFormulas'',
           [\<lparr>itemUUID = ''Item.bomb'', actor_quantity = None, actor_expended = None,
             actor_isSignatureItem = None\<rparr>,
            \<lparr>itemUUID = ''Item.bomb'', actor_quantity = None, actor_expended = None,
             actor_isSignatureItem = None\<rparr>])]\<rparr>"
  by (simp add: checkEntryRequirements_def prepareFormula_def example_state_def example_entry_def
      example_formula_def example_item_def updateActorEntryFormulas_def set_preparedFormulas_def
      Let_def)

section \<open>The guarded methods of a crafting entry\<close>

lemma prepData_at_None:
  assumes "index < 0 \<or> index \<ge> int (length (preparedFormulas (entry st)))
           \<or> uuid (formula_item (preparedFormulas (entry st) ! nat index)) \<noteq> itemUUID'"
  shows "prepData_at st index itemUUID' = None"
  using assms by (auto simp: prepData_at_def at_index_def)

text \<open>
  Claim C10. When the entry has no prepared formula at the index (the index is negative or
  not below the number of prepared formulas), or the formula there has another item uuid,
  each of \<^verbatim>\<open>unprepareFormula\<close>, \<^verbatim>\<open>increaseFormulaQuantity\<close>, \<^verbatim>\<open>decreaseFormulaQuantity\<close>,
  \<^verbatim>\<open>setFormulaQuantity\<close>, \<^verbatim>\<open>toggleFormulaExpended\<close> and \<^verbatim>\<open>toggleSignatureItem\<close> leaves the
  state as it is: the prepared formulas are not changed and no actor update is sent.
\<close>

theorem guarded_methods_no_op:
  assumes "index < 0 \<or> index \<ge> int (length (preparedFormulas (entry st)))
           \<or> uuid (formula_item (preparedFormulas (entry st) ! nat index)) \<noteq> itemUUID'"
  shows "unprepareFormula index itemUUID' st = st
       \<and> increaseFormulaQuantity index itemUUID' st = st
       \<and> decreaseFormulaQuantity index itemUUID' st = st
       \<and> setFormulaQuantity index itemUUID' q st = st
       \<and> toggleFormulaExpended index itemUUID' st = st
       \<and> toggleSignatureItem index itemUUID' st = st"
  using prepData_at_None [OF assms]
  by (simp add: unprepareFormula_def increaseFormulaQuantity_def decreaseFormulaQuantity_def
      setFormulaQuantity_def toggleFormulaExpended_def toggleSignatureItem_def)

theorem guarded_methods_no_op_witness:
  "(let st = example_state (example_entry\<lparr>preparedFormulas := [example_formula]\<rparr>) in
     unprepareFormula 0 ''Item.other'' st = st
     \<and> increaseFormulaQuantity 0 ''Item.other'' st = st
     \<and> decreaseFormulaQuantity 0 ''Item.other'' st = st
     \<and> setFormulaQuantity 0 ''Item.other'' 3 st = st
     \<and> toggleFormulaExpended 0 ''Item.other'' st = st
     \<and> toggleSignatureItem 0 ''Item.other'' st = st
     \<and> unprepareFormula 1 ''Item.bomb'' st = st
     \<and> setFormulaQuantity (- 1) ''Item.bomb'' 3 st = st
     \<and> unprepareFormula 0 ''Item.bomb'' st \<noteq> st)"
proof -
  let ?st = "example_state (example_entry\<lparr>preparedFormulas := [example_formula]\<rparr>)"
  have a: "(0::int) < 0 \<or> 0 \<ge> int (length (preparedFormulas (entry ?st)))
           \<or> uuid (formula_item (preparedFormulas (entry ?st) ! nat 0)) \<noteq> ''Item.other''"
    by (simp add: example_state_def example_formula_def example_item_def)
  have b: "(1::int) < 0 \<or> 1 \<ge> int (length (preparedFormulas (entry ?st)))
           \<or> uuid (formula_item (preparedFormulas (entry ?st) ! nat 1)) \<noteq> ''Item.bomb''"
    by (simp add: example_state_def)
  have c: "(- 1::int) < 0 \<or> - 1 \<ge> int (length (preparedFormulas (entry ?st)))
           \<or> uuid (formula_item (preparedFormulas (entry ?st) ! nat (- 1))) \<noteq> ''Item.bomb''"
    by simp
  have d: "unprepareFormula 0 ''Item.bomb'' ?st \<noteq> ?st"
    by (simp add: unprepareFormula_def prepData_at_def at_index_def example_state_def
        example_formula_def example_item_def updateActorEntryFormulas_def set_preparedFormulas_def)
  from guarded_methods_no_op [OF a, of 3] guarded_methods_no_op [OF b, of 3]
    guarded_methods_no_op [OF c, of 3] d
  show ?thesis by (simp add: Let_def)
qed

section \<open>Damage\<close>







section \<open>The pre-update hook\<close>

lemma description_is_null_iff:
  "description_is_null changed \<longleftrightarrow>
     (\<exists>sys desc. change_system changed = Value sys \<and> system_description sys = Value desc
        \<and> description_value desc = Null)"
  by (auto simp: description_is_null_def description_value_of_def split: field.splits)

text \<open>
  Claim C7. When the change set of an item update sets the description value to
  \<^verbatim>\<open>null\<close>, the pre-update hook replaces that value by the empty string and nothing else:
  every other part of the change set, inside and outside \<^verbatim>\<open>changed.system\<close>, stays as it
  was. The hit-point adjustment, the rule elements' callbacks and the host's own hook then
  run on the coerced change set, and the hook's outcome is the one it has when the empty
  string is supplied in the first place. The hook has no branch that rejects the update.
\<close>

theorem preUpdate_null_description:
  assumes "change_system changed = Value sys"
    and "system_description sys = Value desc"
    and "description_value desc = Null"
    and "coerced = changed\<lparr>change_system :=
                     Value (sys\<lparr>system_description :=
                              Value (desc\<lparr>description_value := Value []\<rparr>)\<rparr>)\<rparr>"
  shows "description_is_null changed
       \<and> description_value_of coerced = Value []
       \<and> changed_out (preUpdate env changed) = fold (\<lambda>rule c. rule c) (rules_preUpdate env) coerced
       \<and> (rules_preUpdate env = [] \<longrightarrow> changed_out (preUpdate env changed) = coerced)
       \<and> super_result (preUpdate env changed)
           = super_preUpdate env (fold (\<lambda>rule c. rule c) (rules_preUpdate env) coerced)
       \<and> hp_updates (preUpdate env changed)
           = (if adjusts_hp env \<and> clone_hp_max env coerced \<noteq> actor_hp_max env
              then [actor_hp_value env + (clone_hp_max env coerced - actor_hp_max env)]
              else [])
       \<and> preUpdate env changed = preUpdate env coerced"
proof -
  have null: "description_is_null changed"
    using assms(1-3) by (auto simp: description_is_null_iff)
  have set: "set_description_value (Value []) changed = coerced"
    using assms by (simp add: set_description_value_def)
  have empty: "description_value_of coerced = Value []"
    by (simp add: assms(4) description_value_of_def)
  then have not_null: "\<not> description_is_null coerced"
    by (simp add: description_is_null_def)
  show ?thesis
    using null empty not_null
    by (simp add: preUpdate_def Let_def set)
qed

theorem preUpdate_null_description_witness:
  "changed_out (preUpdate example_env example_change)
       = \<lparr>change_system = Value \<lparr>system_description = Value \<lparr>description_value = Value []\<rparr>,
                               system_other = [''rules'']\<rparr>,
          change_other = [''name'', ''seen'']\<rparr>
   \<and> hp_updates (preUpdate example_env example_change) = [12]
   \<and> super_result (preUpdate example_env example_change)"
proof -
  let ?coerced = "\<lparr>change_system = Value \<lparr>system_description = Value \<lparr>description_value = Value []\<rparr>,
                               system_other = [''rules'']\<rparr>,
          change_other = [''name'']\<rparr>"
  have c: "?coerced = example_change\<lparr>change_system :=
                     Value (\<lparr>system_description = Value \<lparr>description_value = Null\<rparr>,
                             system_other = [''rules'']\<rparr>\<lparr>system_description :=
                              Value (\<lparr>description_value = Null\<rparr>\<lparr>description_value := Value []\<rparr>)\<rparr>)\<rparr>"
    by (simp add: example_change_def)
  have p1: "change_system example_change
              = Value \<lparr>system_description = Value \<lparr>description_value = Null\<rparr>,
                       system_other = [''rules'']\<rparr>"
    by (simp add: example_change_def)
  have p2: "system_description \<lparr>system_description = Value \<lparr>description_value = Null\<rparr>,
                                system_other = [''rules'']\<rparr>
              = Value \<lparr>description_value = Null\<rparr>"
    by simp
  have p3: "description_value \<lparr>description_value = Null\<rparr> = Null"
    by simp
  note t = preUpdate_null_description [OF p1 p2 p3 c, of example_env]
  have t': "changed_out (preUpdate example_env example_change)
              = fold (\<lambda>rule c. rule c) (rules_preUpdate example_env) ?coerced"
    "super_result (preUpdate example_env example_change)
           = super_preUpdate example_env (fold (\<lambda>rule c. rule c) (rules_preUpdate example_env) ?coerced)"
    "hp_updates (preUpdate example_env example_change)
           = (if adjusts_hp example_env \<and> clone_hp_max example_env ?coerced \<noteq> actor_hp_max example_env
              then [actor_hp_value example_env
                    + (clone_hp_max example_env ?coerced - actor_hp_max example_env)]
              else [])"
    using t by blast+
  show ?thesis
    unfolding t' by (simp add: example_env_def description_value_of_def)
qed

section \<open>Roll options of an item\<close>

lemma sub_if_cons: "set xs \<subseteq> set (if c then y # xs else xs)"
  by auto

lemma sub_if_snoc: "set xs \<subseteq> set (if c then xs @ [y] else xs)"
  by auto

lemma getRollOptions_base:
  assumes "prefix \<noteq> []"
  shows "set ([(prefix @ '':'') @ (case item_slug this of None \<Rightarrow> sluggify (item_name this) | Some s \<Rightarrow> s)]
              @ map (\<lambda>t. (prefix @ '':'') @ ''trait:'' @ t)
                  (case system_traits this of None \<Rightarrow> [] | Some ts \<Rightarrow> ts)
              @ (case system_level this of
                   None \<Rightarrow> [] | Some l \<Rightarrow> [(prefix @ '':'') @ ''level:'' @ int_str l]))
         \<subseteq> set (getRollOptions sluggify PHYSICAL_ITEM_TYPES this prefix)"
  unfolding getRollOptions_def Let_def
  apply (rule order_trans [OF _ sub_if_snoc])
  apply (rule order_trans [OF _ sub_if_cons])
  apply (insert assms)
  apply (cases "system_level this")
   apply (simp_all add: image_image subset_insertI2)
  done

text \<open>
  Claim C8. For an item, whose type is not the empty string, \<^verbatim>\<open>getRollOptions\<close> with
  its default prefix returns a list that contains \<^verbatim>\<open><type>:<slug>\<close>, the slug falling
  back to the sluggified name, \<^verbatim>\<open><type>:trait:<trait>\<close> for every trait of the item, and
  \<^verbatim>\<open><type>:level:<n>\<close> when the item has a level \<open>n\<close>.
\<close>

theorem getRollOptions_default_contains:
  assumes "item_type this \<noteq> []"
    and "slug = (case item_slug this of None \<Rightarrow> sluggify (item_name this) | Some s \<Rightarrow> s)"
    and "options = getRollOptions_default sluggify PHYSICAL_ITEM_TYPES this"
  shows "item_type this @ '':'' @ slug \<in> set options
       \<and> (\<forall>ts. system_traits this = Some ts \<longrightarrow>
             (\<forall>t \<in> set ts. item_type this @ '':trait:'' @ t \<in> set options))
       \<and> (\<forall>n. system_level this = Some n \<longrightarrow>
             item_type this @ '':level:'' @ int_str n \<in> set options)"
proof -
  have sub: "set ([(item_type this @ '':'') @ slug]
              @ map (\<lambda>t. (item_type this @ '':'') @ ''trait:'' @ t)
                  (case system_traits this of None \<Rightarrow> [] | Some ts \<Rightarrow> ts)
              @ (case system_level this of
                   None \<Rightarrow> [] | Some l \<Rightarrow> [(item_type this @ '':'') @ ''level:'' @ int_str l]))
         \<subseteq> set options"
    unfolding assms(2) assms(3) getRollOptions_default_def
    using assms(1) by (rule getRollOptions_base)
  have 1: "item_type this @ '':'' @ slug \<in> set options"
    using sub by simp
  have 2: "item_type this @ '':trait:'' @ t \<in> set options"
    if "system_traits this = Some ts" "t \<in> set ts" for ts t
  proof -
    have "(item_type this @ '':'') @ ''trait:'' @ t \<in> set options"
      using sub that by (simp add: image_subset_iff)
    then show ?thesis by simp
  qed
  have 3: "item_type this @ '':level:'' @ int_str n \<in> set options"
    if "system_level this = Some n" for n
  proof -
    have "(item_type this @ '':'') @ ''level:'' @ int_str n \<in> set options"
      using sub that by simp
    then show ?thesis by simp
  qed
  from 1 2 3 show ?thesis by blast
qed

theorem getRollOptions_default_contains_witness:
  "set [''feat:flames'', ''feat:trait:oracle'', ''feat:trait:fire'', ''feat:level:1'']
     \<subseteq> set (getRollOptions_default id {} example_item_doc)"
proof -
  have a: "item_type example_item_doc \<noteq> []" by (simp add: example_item_doc_def)
  have b: "''flames'' = (case item_slug example_item_doc of
                           None \<Rightarrow> id (item_name example_item_doc) | Some s \<Rightarrow> s)"
    by (simp add: example_item_doc_def)
  have c: "int_str 1 = ''1''" by (simp add: int_str_def nat_str_def nat_digits.simps)
  have d: "system_traits example_item_doc = Some [''oracle'', ''fire'']"
    "system_level example_item_doc = Some 1" "item_type example_item_doc = ''feat''"
    by (simp_all add: example_item_doc_def)
  from getRollOptions_default_contains
         [of example_item_doc "''flames''" id "getRollOptions_default id {} example_item_doc" "{}"] a b
  have "item_type example_item_doc @ '':'' @ ''flames''
          \<in> set (getRollOptions_default id {} example_item_doc)"
    and "\<forall>t \<in> set [''oracle'', ''fire'']. item_type example_item_doc @ '':trait:'' @ t
          \<in> set (getRollOptions_default id {} example_item_doc)"
    and "item_type example_item_doc @ '':level:'' @ int_str 1
          \<in> set (getRollOptions_default id {} example_item_doc)"
    using d by blast+
  then show ?thesis unfolding c d(3) by simp
qed

end
